theory Spec2Isabelle
  imports Complex_Main
begin

chapter \<open>The model\<close>

text \<open>
  A shallow embedding of the browser-side pipeline: the scale filter and the message
  handler of the FFmpeg worker, the asset cache, the bridge hook that owns the worker,
  and the recorder provider. Module variables, React state and refs are fields of
  records that the functions take and return; a thrown error is the \<open>Inl\<close> of a sum; what
  the platform decides (network, engine, devices) is an explicit argument.
\<close>

section \<open>JavaScript values used by the sources\<close>

text \<open>
  Numbers that reach the code as pixel sizes, seconds and quality levels are modelled
  as the integer-valued numbers together with \<open>NaN\<close>; both \<open>0\<close> and \<open>NaN\<close> are falsy.
  An optional property (\<^verbatim>\<open>width?: number\<close>) is an \<open>option\<close>: \<open>None\<close> is
  \<^verbatim>\<open>undefined\<close>.
\<close>

datatype jsnum = Num int | NaN

function show_nat :: "nat \<Rightarrow> string" where
  "show_nat n =
     (if n < 10 then [''0123456789'' ! n]
      else show_nat (n div 10) @ [''0123456789'' ! (n mod 10)])"
  by pat_completeness auto
termination
  by (relation "measure id") auto

declare show_nat.simps [simp del]

text \<open>
  \<^verbatim>\<open>String(n)\<close> and the rendering of a number inside a template literal. The numbers of
  the model are the integers and \<^verbatim>\<open>NaN\<close>; fractions, the infinities and the exponent notation
  that JavaScript uses from \<^verbatim>\<open>1e21\<close> on are not modelled.
\<close>

fun String_num :: "jsnum \<Rightarrow> string" where
  "String_num NaN = ''NaN''"
| "String_num (Num i) = (if i < 0 then ''-'' @ show_nat (nat (- i)) else show_nat (nat i))"

text \<open>Truthiness of an optional number, as \<^verbatim>\<open>if (opts.height)\<close> tests it.\<close>

fun truthy :: "jsnum option \<Rightarrow> bool" where
  "truthy None = False"
| "truthy (Some NaN) = False"
| "truthy (Some (Num i)) = (i \<noteq> 0)"

text \<open>\<^verbatim>\<open>`${x}`\<close> for an optional number.\<close>

fun template :: "jsnum option \<Rightarrow> string" where
  "template None = ''undefined''"
| "template (Some n) = String_num n"

text \<open>\<^verbatim>\<open>xs.join(sep)\<close>\<close>

fun join :: "string \<Rightarrow> string list \<Rightarrow> string" where
  "join sep [] = []"
| "join sep [x] = x"
| "join sep (x # y # ys) = x @ sep @ join sep (y # ys)"

section \<open>The worker: \<^verbatim>\<open>ffmpegWorker.ts\<close>\<close>

subsection \<open>\<^verbatim>\<open>scaleFilter\<close>\<close>

record scale_opts =
  width :: "jsnum option"
  height :: "jsnum option"

definition scaleFilter :: "scale_opts \<Rightarrow> string list" where
  "scaleFilter opts =
     (let vf0 = [];
          vf1 = (if truthy (height opts) \<and> \<not> truthy (width opts)
                 then vf0 @ [''scale=-2:'' @ template (height opts)] else vf0);
          vf2 = (if truthy (width opts) \<and> \<not> truthy (height opts)
                 then vf1 @ [''scale='' @ template (width opts) @ '':-2''] else vf1);
          vf3 = (if truthy (width opts) \<and> truthy (height opts)
                 then vf2 @ [''scale='' @ template (width opts) @ '':'' @ template (height opts)]
                 else vf2)
      in if length vf3 \<noteq> 0 then [''-vf'', join '','' vf3] else [])"


section \<open>The asset cache: \<^verbatim>\<open>ffmpegCoreConfig.ts\<close> and \<^verbatim>\<open>ffmpegCache.ts\<close>\<close>

definition FFMPEG_CORE_VERSION :: string where
  "FFMPEG_CORE_VERSION = ''0.12.10''"

definition FFMPEG_CORE_BASE :: string where
  "FFMPEG_CORE_BASE = ''https://cdn.jsdelivr.net/npm/@ffmpeg/core@'' @ FFMPEG_CORE_VERSION @ ''/dist/umd''"

definition CORE_JS_URL :: string where
  "CORE_JS_URL = FFMPEG_CORE_BASE @ ''/ffmpeg-core.js''"

definition CORE_WASM_URL :: string where
  "CORE_WASM_URL = FFMPEG_CORE_BASE @ ''/ffmpeg-core.wasm''"

definition FFMPEG_CACHE_NAME :: string where
  "FFMPEG_CACHE_NAME = ''ffmpeg-core-cache-v1''"

text \<open>
  A \<^verbatim>\<open>Response\<close> is its HTTP status and its body; \<^verbatim>\<open>res.ok\<close> holds for the statuses
  200 to 299. A \<^verbatim>\<open>Cache\<close> maps request URLs to stored responses, the \<^verbatim>\<open>CacheStorage\<close>
  maps bucket names to caches. The global object either does not exist (server-side
  rendering), or exists with or without the \<^verbatim>\<open>caches\<close> property.
\<close>

type_synonym bytes = "nat list"

record response =
  http_status :: nat
  body :: bytes

definition ok :: "response \<Rightarrow> bool" where
  "ok r = (200 \<le> http_status r \<and> http_status r \<le> 299)"

type_synonym cache = "string \<rightharpoonup> response"

type_synonym cache_storage = "string \<rightharpoonup> cache"

datatype window = NoWindow | Window "cache_storage option"

fun getCaches :: "window \<Rightarrow> cache_storage option" where
  "getCaches NoWindow = None"
| "getCaches (Window c) = c"

text \<open>
  What the platform does during one call: whether \<^verbatim>\<open>caches.open\<close> rejects, what the two
  \<^verbatim>\<open>fetch\<close> calls settle to (\<open>Inl\<close> is a rejection: network failure or abort), and
  whether a \<^verbatim>\<open>cache.put\<close> rejects (\<open>Some\<close> carries the message). \<^verbatim>\<open>Promise.all\<close> rejects
  with the rejection of one of its failed members; where both fail the model reports
  the first in program order.
\<close>

record cache_env =
  open_rejects :: "string option"
  fetch_js :: "string + response"
  fetch_wasm :: "string + response"
  put_js_rejects :: "string option"
  put_wasm_rejects :: "string option"

text \<open>\<^verbatim>\<open>caches.open(name)\<close> creates the bucket when it does not exist yet.\<close>

definition caches_open :: "string \<Rightarrow> cache_storage \<Rightarrow> cache \<times> cache_storage" where
  "caches_open name cs =
     (case cs name of
        None \<Rightarrow> (Map.empty, cs(name \<mapsto> Map.empty))
      | Some c \<Rightarrow> (c, cs))"

text \<open>\<^verbatim>\<open>cache.put(url, res)\<close> on the cache opened under \<open>name\<close>.\<close>

definition cache_put :: "string \<Rightarrow> string \<Rightarrow> response \<Rightarrow> cache_storage \<Rightarrow> cache_storage" where
  "cache_put name url res cs =
     cs(name \<mapsto> (case cs name of None \<Rightarrow> Map.empty | Some c \<Rightarrow> c)(url \<mapsto> res))"

definition isCoreCached :: "cache_env \<Rightarrow> window \<Rightarrow> (string + bool) \<times> window" where
  "isCoreCached env win =
     (case getCaches win of
        None \<Rightarrow> (Inr False, win)
      | Some caches \<Rightarrow>
          (case open_rejects env of
             Some e \<Rightarrow> (Inl e, win)
           | None \<Rightarrow>
               (let (cache, caches1) = caches_open FFMPEG_CACHE_NAME caches;
                    jsRes = cache CORE_JS_URL;
                    wasmRes = cache CORE_WASM_URL
                in (Inr (jsRes \<noteq> None \<and> wasmRes \<noteq> None), Window (Some caches1)))))"

definition cacheCoreAssets :: "cache_env \<Rightarrow> window \<Rightarrow> (string + unit) \<times> window" where
  "cacheCoreAssets env win =
     (case getCaches win of
        None \<Rightarrow> (Inl ''Cache Storage API is not available in this environment'', win)
      | Some caches \<Rightarrow>
          (case open_rejects env of
             Some e \<Rightarrow> (Inl e, win)
           | None \<Rightarrow>
               (let (cache, caches1) = caches_open FFMPEG_CACHE_NAME caches in
                case fetch_js env of
                  Inl e \<Rightarrow> (Inl e, Window (Some caches1))
                | Inr js \<Rightarrow>
                    (case fetch_wasm env of
                       Inl e \<Rightarrow> (Inl e, Window (Some caches1))
                     | Inr wasm \<Rightarrow>
                         if \<not> ok js
                         then (Inl (''Failed to fetch ffmpeg-core.js: '' @ show_nat (http_status js)),
                               Window (Some caches1))
                         else if \<not> ok wasm
                         then (Inl (''Failed to fetch ffmpeg-core.wasm: '' @ show_nat (http_status wasm)),
                               Window (Some caches1))
                         else
                           (let caches2 = (case put_js_rejects env of
                                             None \<Rightarrow> cache_put FFMPEG_CACHE_NAME CORE_JS_URL js caches1
                                           | Some e \<Rightarrow> caches1);
                                caches3 = (case put_wasm_rejects env of
                                             None \<Rightarrow> cache_put FFMPEG_CACHE_NAME CORE_WASM_URL wasm caches2
                                           | Some e \<Rightarrow> caches2)
                            in (case put_js_rejects env of
                                  Some e \<Rightarrow> (Inl e, Window (Some caches3))
                                | None \<Rightarrow>
                                    (case put_wasm_rejects env of
                                       Some e \<Rightarrow> (Inl e, Window (Some caches3))
                                     | None \<Rightarrow> (Inr (), Window (Some caches3)))))))))"

definition clearCoreCache :: "window \<Rightarrow> window" where
  "clearCoreCache win =
     (case getCaches win of
        None \<Rightarrow> win
      | Some caches \<Rightarrow> Window (Some (caches(FFMPEG_CACHE_NAME := None))))"

text \<open>
  The entries of the bucket as a reader finds them: a bucket that does not exist holds
  nothing, and neither does a context without the storage API.
\<close>

definition bucket :: "window \<Rightarrow> cache" where
  "bucket win =
     (case getCaches win of
        None \<Rightarrow> Map.empty
      | Some caches \<Rightarrow> (case caches FFMPEG_CACHE_NAME of None \<Rightarrow> Map.empty | Some c \<Rightarrow> c))"

section \<open>Messages between the page and the worker: \<^verbatim>\<open>workerMessages.ts\<close>\<close>

text \<open>
  The two parameter objects share the input fields. \<open>None\<close> is an omitted property.
  (The field \<^verbatim>\<open>start\<close> of \<^verbatim>\<open>PreviewParams\<close> is called \<open>start_pos\<close> here, since \<open>start\<close>
  names the recorder's callback below, and \<^verbatim>\<open>at\<close> of \<^verbatim>\<open>SnapshotParams\<close> is called \<open>at_time\<close>.)
\<close>

datatype Preset = ultrafast | superfast | veryfast | faster | fast | medium | slow | slower | veryslow

fun preset_name :: "Preset \<Rightarrow> string" where
  "preset_name ultrafast = ''ultrafast''"
| "preset_name superfast = ''superfast''"
| "preset_name veryfast = ''veryfast''"
| "preset_name faster = ''faster''"
| "preset_name fast = ''fast''"
| "preset_name medium = ''medium''"
| "preset_name slow = ''slow''"
| "preset_name slower = ''slower''"
| "preset_name veryslow = ''veryslow''"

record job_input =
  data :: bytes
  inputName :: "string option"
  scaleHeight :: "jsnum option"
  scaleWidth :: "jsnum option"

record PreviewParams = job_input +
  start_pos :: "jsnum option"
  duration :: "jsnum option"
  toMp4 :: "bool option"
  crf :: "jsnum option"
  preset :: "Preset option"

record SnapshotParams = job_input +
  at_time :: "jsnum option"
  quality :: "jsnum option"

record load_payload =
  coreURL :: "string option"
  wasmURL :: "string option"

datatype WorkerCommand =
    Cmd_load "load_payload option"
  | Cmd_preview PreviewParams
  | Cmd_snapshot SnapshotParams
  | Cmd_cancel
  | Cmd_terminate

datatype result_kind = Preview | Snapshot

datatype WorkerEvent =
    Ev_loaded
  | Ev_progress "real option" "real option"
  | Ev_log string
  | Ev_result result_kind string string bytes
  | Ev_error string
  | Ev_canceled
  | Ev_terminated

section \<open>The worker: \<^verbatim>\<open>ffmpegWorker.ts\<close> (continued)\<close>

subsection \<open>The engine\<close>

text \<open>
  A thrown value is an error object with a name and a message.
  \<^verbatim>\<open>e?.message || String(e)\<close> is the message, or the rendering of the error when the
  message is empty.
\<close>

datatype js_error = JsError string string

fun message :: "js_error \<Rightarrow> string" where
  "message (JsError n m) = m"

fun String_error :: "js_error \<Rightarrow> string" where
  "String_error (JsError n m) = (if m = [] then n else n @ '': '' @ m)"

definition Error :: "string \<Rightarrow> js_error" where
  "Error m = JsError ''Error'' m"

definition TypeError_null :: js_error where
  "TypeError_null = JsError ''TypeError'' ''Cannot read properties of null''"

definition ERROR_NOT_LOADED :: js_error where
  "ERROR_NOT_LOADED = Error ''ffmpeg is not loaded, call await ffmpeg.load() first''"

definition ERROR_TERMINATED :: js_error where
  "ERROR_TERMINATED = Error ''called FFmpeg.terminate()''"

definition FS_ERROR :: js_error where
  "FS_ERROR = JsError ''ErrnoError'' ''FS error''"

text \<open>
  An \<^verbatim>\<open>FFmpeg\<close> instance of the library: whether the worker's log and progress listeners
  are attached, and its virtual file system, which exists once \<^verbatim>\<open>load\<close> has resolved.
  Writing, reading and deleting behave as on an in-memory file system; every call on an
  instance that is not loaded rejects. What \<^verbatim>\<open>exec\<close>, \<^verbatim>\<open>load\<close> and \<^verbatim>\<open>toBlobURL\<close> do is
  the environment's choice: \<^verbatim>\<open>exec\<close> may emit log and progress notifications, reject, and
  leave any file system behind.
\<close>

type_synonym vfs = "string \<rightharpoonup> bytes"

record engine =
  listening :: bool
  core :: "vfs option"

datatype ffmpeg_note = LogNote string | ProgressNote real real

record ffmpeg_env =
  toBlobURL :: "string \<Rightarrow> string \<Rightarrow> js_error + string"
  load_result :: "string \<Rightarrow> string \<Rightarrow> js_error option"
  exec_result :: "string list \<Rightarrow> vfs \<Rightarrow> ffmpeg_note list \<times> js_error option \<times> vfs"

definition new_FFmpeg :: engine where
  "new_FFmpeg = \<lparr>listening = False, core = None\<rparr>"

definition ffmpeg_load :: "ffmpeg_env \<Rightarrow> string \<Rightarrow> string \<Rightarrow> engine \<Rightarrow> (js_error + unit) \<times> engine" where
  "ffmpeg_load env cu wu e =
     (case load_result env cu wu of
        Some err \<Rightarrow> (Inl err, e)
      | None \<Rightarrow> (Inr (), e\<lparr>core := Some (case core e of None \<Rightarrow> Map.empty | Some fs \<Rightarrow> fs)\<rparr>))"

definition writeFile :: "string \<Rightarrow> bytes \<Rightarrow> engine \<Rightarrow> (js_error + unit) \<times> engine" where
  "writeFile name d e =
     (case core e of
        None \<Rightarrow> (Inl ERROR_NOT_LOADED, e)
      | Some fs \<Rightarrow> (Inr (), e\<lparr>core := Some (fs(name \<mapsto> d))\<rparr>))"

definition readFile :: "string \<Rightarrow> engine \<Rightarrow> (js_error + bytes) \<times> engine" where
  "readFile name e =
     (case core e of
        None \<Rightarrow> (Inl ERROR_NOT_LOADED, e)
      | Some fs \<Rightarrow> (case fs name of None \<Rightarrow> (Inl FS_ERROR, e) | Some d \<Rightarrow> (Inr d, e)))"

definition deleteFile :: "string \<Rightarrow> engine \<Rightarrow> (js_error + unit) \<times> engine" where
  "deleteFile name e =
     (case core e of
        None \<Rightarrow> (Inl ERROR_NOT_LOADED, e)
      | Some fs \<Rightarrow>
          (case fs name of
             None \<Rightarrow> (Inl FS_ERROR, e)
           | Some d \<Rightarrow> (Inr (), e\<lparr>core := Some (fs(name := None))\<rparr>)))"

definition exec :: "ffmpeg_env \<Rightarrow> string list \<Rightarrow> engine \<Rightarrow> ffmpeg_note list \<times> (js_error + unit) \<times> engine" where
  "exec env args e =
     (case core e of
        None \<Rightarrow> ([], Inl ERROR_NOT_LOADED, e)
      | Some fs \<Rightarrow>
          (case exec_result env args fs of
             (notes, Some err, fs') \<Rightarrow> (notes, Inl err, e\<lparr>core := Some fs'\<rparr>)
           | (notes, None, fs') \<Rightarrow> (notes, Inr (), e\<lparr>core := Some fs'\<rparr>)))"

subsection \<open>Module state and suspension points\<close>

record worker =
  ffmpeg :: "engine option"
  loading :: bool
  busy :: bool
  posted :: "WorkerEvent list"

definition worker_init :: worker where
  "worker_init = \<lparr>ffmpeg = None, loading = False, busy = False, posted = []\<rparr>"

definition post :: "WorkerEvent \<Rightarrow> worker \<Rightarrow> worker" where
  "post event w = w\<lparr>posted := posted w @ [event]\<rparr>"

text \<open>The listeners wired in \<^verbatim>\<open>ensureLoaded\<close> forward what the engine reports.\<close>

fun forward :: "ffmpeg_note \<Rightarrow> WorkerEvent" where
  "forward (LogNote m) = Ev_log m"
| "forward (ProgressNote progress t) = Ev_progress (Some progress) (Some t)"

definition post_notes :: "engine \<Rightarrow> ffmpeg_note list \<Rightarrow> worker \<Rightarrow> worker" where
  "post_notes e notes w = (if listening e then fold (\<lambda>n. post (forward n)) notes w else w)"

text \<open>
  While a handler is suspended in an \<^verbatim>\<open>await\<close>, other commands may arrive and are handled
  (by \<open>h\<close>) before it resumes. A schedule lists, for each suspension of a run in order,
  the commands that arrive meanwhile; a schedule that has run out means that none
  arrives. Every awaited promise is taken to settle. While an engine call is pending, a
  command that tears the engine down makes \<^verbatim>\<open>terminate()\<close> reject the pending call at
  once, and the suspended handler resumes before any later command is delivered, so the
  arrivals of that suspension stop there. While a fetch is pending, all arrivals of the
  suspension are handled.
\<close>

type_synonym handler = "WorkerCommand \<Rightarrow> worker \<Rightarrow> worker"

type_synonym schedule = "WorkerCommand list list"

fun arrivals :: "handler \<Rightarrow> WorkerCommand list \<Rightarrow> worker \<Rightarrow> worker" where
  "arrivals h [] w = w"
| "arrivals h (c # cs) w = (if ffmpeg w = None then w else arrivals h cs (h c w))"

definition suspend :: "handler \<Rightarrow> schedule \<Rightarrow> worker \<Rightarrow> worker \<times> schedule" where
  "suspend h sched w =
     (case sched of [] \<Rightarrow> (w, []) | cs # rest \<Rightarrow> (arrivals h cs w, rest))"

definition suspend_fetch :: "handler \<Rightarrow> schedule \<Rightarrow> worker \<Rightarrow> worker \<times> schedule" where
  "suspend_fetch h sched w =
     (case sched of [] \<Rightarrow> (w, []) | cs # rest \<Rightarrow> (fold h cs w, rest))"

text \<open>
  \<^verbatim>\<open>await ffmpeg.op(...)\<close>: reading a property of \<^verbatim>\<open>null\<close> throws at once; otherwise the
  call is issued, the handler is suspended, and it resumes with the rejection of
  \<^verbatim>\<open>terminate()\<close> if the engine was torn down meanwhile, else with the call's own outcome.
  The effect of the call on the engine is visible from the moment the handler resumes.
\<close>

definition engine_call ::
  "handler \<Rightarrow> schedule \<Rightarrow> (engine \<Rightarrow> (js_error + 'a) \<times> engine) \<Rightarrow> worker
     \<Rightarrow> (js_error + 'a) \<times> worker \<times> schedule" where
  "engine_call h sched op w =
     (case ffmpeg w of
        None \<Rightarrow> (Inl TypeError_null, w, sched)
      | Some e \<Rightarrow>
          (let (r, e') = op e;
               (w1, sched1) = suspend h sched w
           in case ffmpeg w1 of
                None \<Rightarrow> (Inl ERROR_TERMINATED, w1, sched1)
              | Some e1 \<Rightarrow> (r, w1\<lparr>ffmpeg := Some e'\<rparr>, sched1)))"


subsection \<open>\<^verbatim>\<open>ensureLoaded\<close>\<close>

text \<open>\<^verbatim>\<open>x || y\<close> on an optional string: \<^verbatim>\<open>undefined\<close> and the empty string are falsy.\<close>

fun truthy_str :: "string option \<Rightarrow> bool" where
  "truthy_str None = False"
| "truthy_str (Some s) = (s \<noteq> [])"

definition or_else :: "string option \<Rightarrow> string \<Rightarrow> string" where
  "or_else x d = (case x of None \<Rightarrow> d | Some s \<Rightarrow> if s = [] then d else s)"

text \<open>\<^verbatim>\<open>url || (await toBlobURL(remote, mime))\<close>: the fetch is awaited only when no URL was given.\<close>

definition resolve_url ::
  "handler \<Rightarrow> ffmpeg_env \<Rightarrow> schedule \<Rightarrow> string option \<Rightarrow> string \<Rightarrow> string \<Rightarrow> worker
     \<Rightarrow> (js_error + string) \<times> worker \<times> schedule" where
  "resolve_url h env sched given remote mime w =
     (if truthy_str given then (Inr (or_else given []), w, sched)
      else (let (w1, sched1) = suspend_fetch h sched w in (toBlobURL env remote mime, w1, sched1)))"

definition ensureLoaded ::
  "handler \<Rightarrow> ffmpeg_env \<Rightarrow> schedule \<Rightarrow> string option \<Rightarrow> string option \<Rightarrow> worker
     \<Rightarrow> (js_error + unit) \<times> worker \<times> schedule" where
  "ensureLoaded h env sched core_url wasm_url w =
     (if ffmpeg w \<noteq> None \<and> \<not> loading w then (Inr (), w, sched)
      else
        (let w1 = (if ffmpeg w = None then w\<lparr>ffmpeg := Some new_FFmpeg\<rparr> else w) in
         if loading w1 then (Inr (), w1, sched)
         else
           (let w2 = w1\<lparr>loading := True\<rparr>;
                w3 = w2\<lparr>ffmpeg := map_option (\<lambda>e. e\<lparr>listening := True\<rparr>) (ffmpeg w2)\<rparr>
            in case resolve_url h env sched core_url CORE_JS_URL ''text/javascript'' w3 of
                 (Inl err, w4, s4) \<Rightarrow> (Inl err, w4, s4)
               | (Inr resolvedCoreURL, w4, s4) \<Rightarrow>
                   (case resolve_url h env s4 wasm_url CORE_WASM_URL ''application/wasm'' w4 of
                      (Inl err, w5, s5) \<Rightarrow> (Inl err, w5, s5)
                    | (Inr resolvedWasmURL, w5, s5) \<Rightarrow>
                        (case engine_call h s5 (ffmpeg_load env resolvedCoreURL resolvedWasmURL) w5 of
                           (Inl err, w6, s6) \<Rightarrow> (Inl err, w6, s6)
                         | (Inr u, w6, s6) \<Rightarrow> (Inr (), post Ev_loaded (w6\<lparr>loading := False\<rparr>), s6))))))"

subsection \<open>\<^verbatim>\<open>doPreview\<close> and \<^verbatim>\<open>doSnapshot\<close>\<close>

text \<open>\<^verbatim>\<open>x ?? d\<close> on an optional number.\<close>

definition nullish :: "jsnum option \<Rightarrow> jsnum \<Rightarrow> jsnum" where
  "nullish x d = (case x of None \<Rightarrow> d | Some v \<Rightarrow> v)"

fun endsWith :: "string \<Rightarrow> string \<Rightarrow> bool" where
  "endsWith s suffix =
     (length suffix \<le> length s \<and> drop (length s - length suffix) s = suffix)"

text \<open>The output name and the argument list that \<^verbatim>\<open>doPreview\<close> builds before \<^verbatim>\<open>exec\<close>.\<close>

definition preview_recipe :: "PreviewParams \<Rightarrow> string \<times> string list" where
  "preview_recipe p =
     (let inputName = or_else (inputName p) ''input.webm'';
          start = nullish (start_pos p) (Num 0);
          duration = nullish (duration p) (Num 10);
          vf = scaleFilter \<lparr>width = scaleWidth p, height = scaleHeight p\<rparr>
      in if toMp4 p \<noteq> Some False
         then (let crf = String_num (nullish (crf p) (Num 28));
                   preset = (case preset p of None \<Rightarrow> ''veryfast'' | Some x \<Rightarrow> preset_name x)
               in (''preview.mp4'',
                   [''-ss'', String_num start, ''-t'', String_num duration, ''-i'', inputName]
                   @ vf
                   @ [''-c:v'', ''libx264'', ''-preset'', preset, ''-crf'', crf,
                      ''-pix_fmt'', ''yuv420p'', ''-c:a'', ''aac'', ''-b:a'', ''128k'',
                      ''-movflags'', ''+faststart'', ''preview.mp4'']))
         else (''preview.webm'',
               [''-ss'', String_num start, ''-t'', String_num duration, ''-i'', inputName]
               @ vf
               @ [''-c'', ''copy'', ''preview.webm'']))"

definition snapshot_recipe :: "SnapshotParams \<Rightarrow> string \<times> string list" where
  "snapshot_recipe p =
     (let inputName = or_else (inputName p) ''input.webm'';
          at_time = nullish (at_time p) (Num 1);
          vf = scaleFilter \<lparr>width = scaleWidth p, height = scaleHeight p\<rparr>
      in (''thumb.jpg'',
          [''-ss'', String_num at_time, ''-i'', inputName, ''-frames:v'', ''1'',
           ''-q:v'', String_num (nullish (quality p) (Num 2))]
          @ vf
          @ [''thumb.jpg'']))"

text \<open>\<^verbatim>\<open>await ffmpeg.exec(args)\<close>, with the engine's notifications forwarded by the listeners.\<close>

definition exec_call ::
  "handler \<Rightarrow> ffmpeg_env \<Rightarrow> schedule \<Rightarrow> string list \<Rightarrow> worker
     \<Rightarrow> (js_error + unit) \<times> worker \<times> schedule" where
  "exec_call h env sched args w =
     (case ffmpeg w of
        None \<Rightarrow> (Inl TypeError_null, w, sched)
      | Some e \<Rightarrow>
          (case exec env args e of
             (notes, r, e') \<Rightarrow> engine_call h sched (\<lambda>_. (r, e')) (post_notes e notes w)))"

text \<open>\<^verbatim>\<open>try { await ffmpeg.deleteFile(name); } catch {}\<close>\<close>

definition try_delete :: "handler \<Rightarrow> schedule \<Rightarrow> string \<Rightarrow> worker \<Rightarrow> worker \<times> schedule" where
  "try_delete h sched name w =
     (case engine_call h sched (deleteFile name) w of (r, w1, s1) \<Rightarrow> (w1, s1))"

text \<open>The \<^verbatim>\<open>try\<close> block of \<^verbatim>\<open>doPreview\<close>.\<close>

definition doPreview_try ::
  "handler \<Rightarrow> ffmpeg_env \<Rightarrow> schedule \<Rightarrow> PreviewParams \<Rightarrow> worker
     \<Rightarrow> (js_error + unit) \<times> worker \<times> schedule" where
  "doPreview_try h env sched p w =
     (let inputName = or_else (inputName p) ''input.webm'' in
      case engine_call h sched (writeFile inputName (data p)) w of
        (Inl err, w1, s1) \<Rightarrow> (Inl err, w1, s1)
      | (Inr u, w1, s1) \<Rightarrow>
          (case preview_recipe p of
             (outName, args) \<Rightarrow>
               (case exec_call h env s1 args w1 of
                  (Inl err, w2, s2) \<Rightarrow> (Inl err, w2, s2)
                | (Inr u, w2, s2) \<Rightarrow>
                    (case engine_call h s2 (readFile outName) w2 of
                       (Inl err, w3, s3) \<Rightarrow> (Inl err, w3, s3)
                     | (Inr outData, w3, s3) \<Rightarrow>
                         (Inr (),
                          post (Ev_result Preview outName
                                  (if endsWith outName ''.mp4'' then ''video/mp4'' else ''video/webm'')
                                  outData) w3,
                          s3)))))"

definition doPreview ::
  "handler \<Rightarrow> ffmpeg_env \<Rightarrow> schedule \<Rightarrow> PreviewParams \<Rightarrow> worker
     \<Rightarrow> (js_error + unit) \<times> worker \<times> schedule" where
  "doPreview h env sched p w =
     (if ffmpeg w = None then (Inl (Error ''FFmpeg is not loaded''), w, sched)
      else
        (case doPreview_try h env sched p (w\<lparr>busy := True\<rparr>) of
           (r, w1, s1) \<Rightarrow>
             (case try_delete h s1 ''preview.mp4'' w1 of
                (w2, s2) \<Rightarrow>
                  (case try_delete h s2 ''preview.webm'' w2 of
                     (w3, s3) \<Rightarrow>
                       (case try_delete h s3 (or_else (inputName p) ''input.webm'') w3 of
                          (w4, s4) \<Rightarrow> (r, w4\<lparr>busy := False\<rparr>, s4))))))"

text \<open>The \<^verbatim>\<open>try\<close> block of \<^verbatim>\<open>doSnapshot\<close>.\<close>

definition doSnapshot_try ::
  "handler \<Rightarrow> ffmpeg_env \<Rightarrow> schedule \<Rightarrow> SnapshotParams \<Rightarrow> worker
     \<Rightarrow> (js_error + unit) \<times> worker \<times> schedule" where
  "doSnapshot_try h env sched p w =
     (let inputName = or_else (inputName p) ''input.webm'' in
      case engine_call h sched (writeFile inputName (data p)) w of
        (Inl err, w1, s1) \<Rightarrow> (Inl err, w1, s1)
      | (Inr u, w1, s1) \<Rightarrow>
          (case snapshot_recipe p of
             (outName, args) \<Rightarrow>
               (case exec_call h env s1 args w1 of
                  (Inl err, w2, s2) \<Rightarrow> (Inl err, w2, s2)
                | (Inr u, w2, s2) \<Rightarrow>
                    (case engine_call h s2 (readFile outName) w2 of
                       (Inl err, w3, s3) \<Rightarrow> (Inl err, w3, s3)
                     | (Inr outData, w3, s3) \<Rightarrow>
                         (Inr (), post (Ev_result Snapshot outName ''image/jpeg'' outData) w3, s3)))))"

definition doSnapshot ::
  "handler \<Rightarrow> ffmpeg_env \<Rightarrow> schedule \<Rightarrow> SnapshotParams \<Rightarrow> worker
     \<Rightarrow> (js_error + unit) \<times> worker \<times> schedule" where
  "doSnapshot h env sched p w =
     (if ffmpeg w = None then (Inl (Error ''FFmpeg is not loaded''), w, sched)
      else
        (case doSnapshot_try h env sched p (w\<lparr>busy := True\<rparr>) of
           (r, w1, s1) \<Rightarrow>
             (case try_delete h s1 ''thumb.jpg'' w1 of
                (w2, s2) \<Rightarrow>
                  (case try_delete h s2 (or_else (inputName p) ''input.webm'') w2 of
                     (w3, s3) \<Rightarrow> (r, w3\<lparr>busy := False\<rparr>, s3)))))"

subsection \<open>\<^verbatim>\<open>cancelCurrent\<close> and the message handler\<close>

definition cancelCurrent :: "worker \<Rightarrow> worker" where
  "cancelCurrent w =
     (if ffmpeg w = None then w
      else post Ev_canceled (w\<lparr>ffmpeg := None, loading := False, busy := False\<rparr>))"

text \<open>\<^verbatim>\<open>e?.message || String(e)\<close>\<close>

definition error_text :: "js_error \<Rightarrow> string" where
  "error_text e = (if message e \<noteq> [] then message e else String_error e)"

text \<open>What the \<^verbatim>\<open>catch\<close> of the handler does with the outcome of its \<^verbatim>\<open>try\<close> block.\<close>

definition catch_post :: "(js_error + unit) \<times> worker \<times> schedule \<Rightarrow> worker" where
  "catch_post x =
     (case x of
        (Inl e, w, s) \<Rightarrow> post (Ev_error (error_text e)) w
      | (Inr u, w, s) \<Rightarrow> w)"

definition onmessage_with :: "handler \<Rightarrow> ffmpeg_env \<Rightarrow> schedule \<Rightarrow> WorkerCommand \<Rightarrow> worker \<Rightarrow> worker" where
  "onmessage_with h env sched msg w =
     (case msg of
        Cmd_load payload \<Rightarrow>
          catch_post (ensureLoaded h env sched (Option.bind payload coreURL) (Option.bind payload wasmURL) w)
      | Cmd_preview p \<Rightarrow>
          catch_post
            (case ensureLoaded h env sched None None w of
               (Inl e, w1, s1) \<Rightarrow> (Inl e, w1, s1)
             | (Inr u, w1, s1) \<Rightarrow>
                 if busy w1 then (Inl (Error ''FFmpeg worker is busy''), w1, s1)
                 else doPreview h env s1 p w1)
      | Cmd_snapshot p \<Rightarrow>
          catch_post
            (case ensureLoaded h env sched None None w of
               (Inl e, w1, s1) \<Rightarrow> (Inl e, w1, s1)
             | (Inr u, w1, s1) \<Rightarrow>
                 if busy w1 then (Inl (Error ''FFmpeg worker is busy''), w1, s1)
                 else doSnapshot h env s1 p w1)
      | Cmd_cancel \<Rightarrow> cancelCurrent w
      | Cmd_terminate \<Rightarrow> post Ev_terminated (cancelCurrent w))"

text \<open>
  A command that arrives while another handler is suspended is handled by the same
  code; its own suspensions are taken without further arrivals. \<open>self_onmessage\<close> is
  the handler of the worker.
\<close>

definition onmessage_atomic :: "ffmpeg_env \<Rightarrow> handler" where
  "onmessage_atomic env = onmessage_with (\<lambda>c w. w) env []"

definition self_onmessage :: "ffmpeg_env \<Rightarrow> schedule \<Rightarrow> WorkerCommand \<Rightarrow> worker \<Rightarrow> worker" where
  "self_onmessage env sched = onmessage_with (onmessage_atomic env) env sched"

section \<open>Object URLs\<close>

text \<open>
  \<^verbatim>\<open>URL.createObjectURL\<close> returns a URL that no earlier call returned; a URL is
  identified by its number in the order of minting. The store records the URLs that are
  live (minted and not yet revoked) with their blobs.
\<close>

datatype blob = Blob bytes string

fun blob_size :: "blob \<Rightarrow> nat" where
  "blob_size (Blob d t) = length d"

fun blob_bytes :: "blob \<Rightarrow> bytes" where
  "blob_bytes (Blob d t) = d"

type_synonym url = nat

record url_store =
  next_url :: nat
  live :: "(url \<times> blob) list"

definition no_urls :: url_store where
  "no_urls = \<lparr>next_url = 0, live = []\<rparr>"

definition createObjectURL :: "blob \<Rightarrow> url_store \<Rightarrow> url \<times> url_store" where
  "createObjectURL b st =
     (next_url st, st\<lparr>next_url := Suc (next_url st), live := live st @ [(next_url st, b)]\<rparr>)"

definition revokeObjectURL :: "url \<Rightarrow> url_store \<Rightarrow> url_store" where
  "revokeObjectURL u st = st\<lparr>live := filter (\<lambda>(v, b). v \<noteq> u) (live st)\<rparr>"

definition live_urls :: "url_store \<Rightarrow> url list" where
  "live_urls st = map fst (live st)"

section \<open>The bridge: \<^verbatim>\<open>useFfmpegWorker.ts\<close>\<close>

datatype WorkerStatus = W_idle | W_loading | W_ready | W_working | W_canceled | W_error

record UseFfmpegWorkerState =
  status :: WorkerStatus
  progress :: real
  time :: "real option"
  lastLog :: "string option"
  error :: "string option"
  previewUrl :: "url option"
  snapshotUrl :: "url option"

text \<open>
  The hook's state, its refs, the object URLs of the page, whether the global object
  exists, and the commands posted to the worker so far.
\<close>

record hook =
  urls :: url_store
  window_defined :: bool
  workerRef :: bool
  state :: UseFfmpegWorkerState
  previewUrlRef :: "url option"
  snapshotUrlRef :: "url option"
  sent :: "WorkerCommand list"

definition state_init :: UseFfmpegWorkerState where
  "state_init = \<lparr>status = W_idle, progress = 0, time = None, lastLog = None, error = None,
                 previewUrl = None, snapshotUrl = None\<rparr>"

definition hook_init :: hook where
  "hook_init = \<lparr>urls = no_urls, window_defined = True, workerRef = False, state = state_init,
                previewUrlRef = None, snapshotUrlRef = None, sent = []\<rparr>"

definition setState :: "(UseFfmpegWorkerState \<Rightarrow> UseFfmpegWorkerState) \<Rightarrow> hook \<Rightarrow> hook" where
  "setState f h = h\<lparr>state := f (state h)\<rparr>"

text \<open>\<^verbatim>\<open>if (ref.current) URL.revokeObjectURL(ref.current)\<close>\<close>

definition revoke_ref :: "url option \<Rightarrow> url_store \<Rightarrow> url_store" where
  "revoke_ref r st = (case r of None \<Rightarrow> st | Some u \<Rightarrow> revokeObjectURL u st)"

text \<open>
  The \<^verbatim>\<open>onmessage\<close> handler that \<^verbatim>\<open>ensureWorker\<close> installs on the worker. A result
  is handled in two phases: the blob is built and its object URL minted, then the branch
  for the result's kind revokes the URL held in the ref, stores the new URL in the ref
  and updates the state.
\<close>

definition mint_result :: "bytes \<Rightarrow> string \<Rightarrow> hook \<Rightarrow> url \<times> hook" where
  "mint_result d mime h =
     (let blob = Blob d mime;
          (url, st1) = createObjectURL blob (urls h)
      in (url, h\<lparr>urls := st1\<rparr>))"

fun install_result :: "result_kind \<Rightarrow> url \<Rightarrow> hook \<Rightarrow> hook" where
  "install_result Preview url h1 =
     (let h2 = h1\<lparr>urls := revoke_ref (previewUrlRef h1) (urls h1)\<rparr>;
          h3 = h2\<lparr>previewUrlRef := Some url\<rparr>
      in setState (\<lambda>s. s\<lparr>status := W_ready, progress := 1, previewUrl := Some url\<rparr>) h3)"
| "install_result Snapshot url h1 =
     (let h2 = h1\<lparr>urls := revoke_ref (snapshotUrlRef h1) (urls h1)\<rparr>;
          h3 = h2\<lparr>snapshotUrlRef := Some url\<rparr>
      in setState (\<lambda>s. s\<lparr>status := W_ready, progress := 1, snapshotUrl := Some url\<rparr>) h3)"

fun w_onmessage :: "WorkerEvent \<Rightarrow> hook \<Rightarrow> hook" where
  "w_onmessage Ev_loaded h = setState (\<lambda>s. s\<lparr>status := W_ready\<rparr>) h"
| "w_onmessage (Ev_progress ratio t) h =
     setState (\<lambda>s. s\<lparr>progress := (case ratio of None \<Rightarrow> 0 | Some r \<Rightarrow> r), time := t\<rparr>) h"
| "w_onmessage (Ev_log m) h = setState (\<lambda>s. s\<lparr>lastLog := Some m\<rparr>) h"
| "w_onmessage (Ev_result kind name mime d) h =
     (case mint_result d mime h of (url, h1) \<Rightarrow> install_result kind url h1)"
| "w_onmessage Ev_canceled h = setState (\<lambda>s. s\<lparr>status := W_canceled, progress := 0\<rparr>) h"
| "w_onmessage Ev_terminated h =
     setState (\<lambda>s. \<lparr>status = W_idle, progress = 0, time = None, lastLog = None, error = None,
                     previewUrl = None, snapshotUrl = None\<rparr>) h"
| "w_onmessage (Ev_error m) h = setState (\<lambda>s. s\<lparr>status := W_error, error := Some m\<rparr>) h"

text \<open>\<^verbatim>\<open>ensureWorker\<close>: whether a worker is available afterwards, and the hook.\<close>

definition ensureWorker :: "hook \<Rightarrow> bool \<times> hook" where
  "ensureWorker h =
     (if \<not> window_defined h then (False, h)
      else if workerRef h then (True, h)
      else (True, h\<lparr>workerRef := True\<rparr>))"

text \<open>The effect cleanup that runs when the component unmounts.\<close>

definition unmount :: "hook \<Rightarrow> hook" where
  "unmount h =
     (let h1 = h\<lparr>urls := revoke_ref (previewUrlRef h) (urls h)\<rparr>;
          h2 = h1\<lparr>urls := revoke_ref (snapshotUrlRef h1) (urls h1)\<rparr>
      in h2\<lparr>workerRef := False\<rparr>)"


fun startsWith :: "string \<Rightarrow> string \<Rightarrow> bool" where
  "startsWith s [] = True"
| "startsWith [] (p # ps) = False"
| "startsWith (c # cs) (p # ps) = (c = p \<and> startsWith cs ps)"

fun str_includes :: "string \<Rightarrow> string \<Rightarrow> bool" where
  "str_includes [] sub = (sub = [])"
| "str_includes (c # cs) sub = (startsWith (c # cs) sub \<or> str_includes cs sub)"

definition mimeToExt :: "string \<Rightarrow> string" where
  "mimeToExt mime =
     (if mime = [] then ''webm''
      else if str_includes mime ''mp4'' then ''mp4''
      else if str_includes mime ''webm'' then ''webm''
      else if str_includes mime ''ogg'' then ''ogv''
      else ''webm'')"

fun inferInputName :: "blob \<Rightarrow> string" where
  "inferInputName (Blob d t) = ''input.'' @ mimeToExt t"

text \<open>
  \<^verbatim>\<open>makePreview\<close> and \<^verbatim>\<open>makeSnapshot\<close>. The options are the parameter object without its
  \<^verbatim>\<open>data\<close> (the \<open>data\<close> field of \<open>opts\<close> is not read); \<^verbatim>\<open>opts?.x ?? d\<close> is the default
  when the options or the property are missing.
\<close>

definition opt_field :: "'o option \<Rightarrow> ('o \<Rightarrow> 'a option) \<Rightarrow> 'a option" where
  "opt_field opts f = (case opts of None \<Rightarrow> None | Some x \<Rightarrow> f x)"

definition opt_or :: "'a option \<Rightarrow> 'a \<Rightarrow> 'a" where
  "opt_or x d = (case x of None \<Rightarrow> d | Some v \<Rightarrow> v)"

definition makePreview :: "blob \<Rightarrow> PreviewParams option \<Rightarrow> hook \<Rightarrow> hook" where
  "makePreview file opts h =
     (case ensureWorker h of
        (False, h1) \<Rightarrow> h1
      | (True, h1) \<Rightarrow>
          if status (state h1) = W_working then h1
          else
            (let h2 = setState (\<lambda>s. s\<lparr>status := W_working, progress := 0, error := None\<rparr>) h1;
                 cmd = Cmd_preview
                   \<lparr>data = blob_bytes file,
                    inputName = Some (opt_or (opt_field opts inputName) (inferInputName file)),
                    scaleHeight = opt_field opts scaleHeight,
                    scaleWidth = opt_field opts scaleWidth,
                    start_pos = Some (opt_or (opt_field opts start_pos) (Num 0)),
                    duration = Some (opt_or (opt_field opts duration) (Num 10)),
                    toMp4 = Some (opt_or (opt_field opts toMp4) True),
                    crf = Some (opt_or (opt_field opts crf) (Num 28)),
                    preset = Some (opt_or (opt_field opts preset) veryfast)\<rparr>
             in h2\<lparr>sent := sent h2 @ [cmd]\<rparr>))"

definition makeSnapshot :: "blob \<Rightarrow> SnapshotParams option \<Rightarrow> hook \<Rightarrow> hook" where
  "makeSnapshot file opts h =
     (case ensureWorker h of
        (False, h1) \<Rightarrow> h1
      | (True, h1) \<Rightarrow>
          if status (state h1) = W_working then h1
          else
            (let h2 = setState (\<lambda>s. s\<lparr>status := W_working, progress := 0, error := None\<rparr>) h1;
                 cmd = Cmd_snapshot
                   \<lparr>data = blob_bytes file,
                    inputName = Some (opt_or (opt_field opts inputName) (inferInputName file)),
                    scaleHeight = opt_field opts scaleHeight,
                    scaleWidth = opt_field opts scaleWidth,
                    at_time = Some (opt_or (opt_field opts at_time) (Num 1)),
                    quality = Some (opt_or (opt_field opts quality) (Num 2))\<rparr>
             in h2\<lparr>sent := sent h2 @ [cmd]\<rparr>))"


definition terminate :: "hook \<Rightarrow> hook" where
  "terminate h =
     (case ensureWorker h of
        (False, h1) \<Rightarrow> h1
      | (True, h1) \<Rightarrow> h1\<lparr>sent := sent h1 @ [Cmd_terminate], workerRef := False\<rparr>)"




section \<open>The recorder: \<^verbatim>\<open>types.ts\<close>, \<^verbatim>\<open>reducer.ts\<close>, \<^verbatim>\<open>media.ts\<close> and \<^verbatim>\<open>context.tsx\<close>\<close>

subsection \<open>State and reducer\<close>

datatype RecordingStatus = R_idle | R_ready | R_recording | R_stopped | R_error

text \<open>
  A \<^verbatim>\<open>MediaStream\<close> is identified by a number. A \<^verbatim>\<open>MediaRecorder\<close> is the stream it
  records and the MIME type it was created with (the \<^verbatim>\<open>picked\<close> that its event handlers
  close over). The status field of the state is called \<open>rec_status\<close> here.
\<close>

type_synonym MediaStream = nat

datatype MediaRecorder = MediaRecorder MediaStream "string option"

fun picked_of :: "MediaRecorder \<Rightarrow> string option" where
  "picked_of (MediaRecorder s t) = t"

record RecorderState =
  rec_status :: RecordingStatus
  errorMessage :: "string option"
  stream :: "MediaStream option"
  recorder :: "MediaRecorder option"
  chunks :: "blob list"
  blob :: "blob option"
  objectUrl :: "url option"
  mimeType :: "string option"

datatype Action =
    SET_ERROR string
  | SET_STREAM "MediaStream option"
  | SET_RECORDER "MediaRecorder option" "string option"
  | SET_STATUS RecordingStatus
  | PUSH_CHUNK blob
  | CLEAR_CHUNKS
  | SET_BLOB "blob option"
  | SET_OBJECT_URL "url option"

definition initialState :: RecorderState where
  "initialState = \<lparr>rec_status = R_idle, errorMessage = None, stream = None, recorder = None,
                   chunks = [], blob = None, objectUrl = None, mimeType = None\<rparr>"

fun reducer :: "RecorderState \<Rightarrow> Action \<Rightarrow> RecorderState" where
  "reducer s (SET_ERROR m) = s\<lparr>rec_status := R_error, errorMessage := Some m\<rparr>"
| "reducer s (SET_STREAM st) = s\<lparr>stream := st\<rparr>"
| "reducer s (SET_RECORDER r mt) = s\<lparr>recorder := r, mimeType := mt\<rparr>"
| "reducer s (SET_STATUS st) = s\<lparr>rec_status := st\<rparr>"
| "reducer s (PUSH_CHUNK c) = s\<lparr>chunks := chunks s @ [c]\<rparr>"
| "reducer s CLEAR_CHUNKS = s\<lparr>chunks := []\<rparr>"
| "reducer s (SET_BLOB b) = s\<lparr>blob := b\<rparr>"
| "reducer s (SET_OBJECT_URL u) = s\<lparr>objectUrl := u\<rparr>"

subsection \<open>Media helpers\<close>

text \<open>
  The platform as \<^verbatim>\<open>media.ts\<close> and \<^verbatim>\<open>init\<close> probe it. \<open>isTypeSupported t\<close> is \<open>None\<close>
  when the probe throws. A \<^verbatim>\<open>getUserMedia\<close> entry point, where present, settles to a
  stream or to an error message.
\<close>

record media_env =
  has_window :: bool
  has_MediaRecorder :: bool
  isTypeSupported :: "string \<Rightarrow> bool option"
  isSecureContext :: bool
  hostname :: string
  mediaDevices_getUserMedia :: "(string + MediaStream) option"
  legacy_getUserMedia :: "(string + MediaStream) option"
  MediaRecorder_throws :: "string option"

fun pick_first :: "(string \<Rightarrow> bool option) \<Rightarrow> string list \<Rightarrow> string option" where
  "pick_first supported [] = None"
| "pick_first supported (t # ts) =
     (if supported t = Some True then Some t else pick_first supported ts)"

definition pickSupportedMimeType :: "media_env \<Rightarrow> string list \<Rightarrow> string option" where
  "pickSupportedMimeType env candidates =
     (if \<not> has_window env \<or> \<not> has_MediaRecorder env then None
      else pick_first (isTypeSupported env) candidates)"

definition requestUserMedia :: "media_env \<Rightarrow> string + MediaStream" where
  "requestUserMedia env =
     (if \<not> has_window env then Inl ''getUserMedia cannot run on the server''
      else if \<not> isSecureContext env \<and> hostname env \<noteq> ''localhost''
      then Inl ''MediaDevices API requires a secure context (HTTPS). Please use HTTPS or localhost.''
      else case mediaDevices_getUserMedia env of
             Some r \<Rightarrow> r
           | None \<Rightarrow>
               (case legacy_getUserMedia env of
                  Some r \<Rightarrow> r
                | None \<Rightarrow> Inl ''MediaDevices.getUserMedia is not supported in this browser. Please try a modern browser and ensure HTTPS or localhost.''))"

subsection \<open>The provider\<close>

text \<open>
  The provider holds the reducer state and two refs; \<open>page_urls\<close> are the object URLs of
  the page, and \<open>device_log\<close> lists the calls made on the recorder and on the stream's
  tracks, in order.
\<close>

datatype device_call = Recorder_start MediaRecorder | Recorder_stop MediaRecorder | Tracks_stop MediaStream

record provider =
  page_urls :: url_store
  rstate :: RecorderState
  urlRef :: "url option"
  chunksRef :: "blob list"
  device_log :: "device_call list"

definition provider_init :: provider where
  "provider_init = \<lparr>page_urls = no_urls, rstate = initialState, urlRef = None, chunksRef = [],
                    device_log = []\<rparr>"

definition dispatch :: "Action \<Rightarrow> provider \<Rightarrow> provider" where
  "dispatch a p = p\<lparr>rstate := reducer (rstate p) a\<rparr>"

definition called :: "device_call \<Rightarrow> provider \<Rightarrow> provider" where
  "called c p = p\<lparr>device_log := device_log p @ [c]\<rparr>"

text \<open>\<^verbatim>\<open>if (urlRef.current) { URL.revokeObjectURL(urlRef.current); urlRef.current = null; }\<close>\<close>

definition revoke_urlRef :: "provider \<Rightarrow> provider" where
  "revoke_urlRef p =
     (case urlRef p of
        None \<Rightarrow> p
      | Some u \<Rightarrow> p\<lparr>page_urls := revokeObjectURL u (page_urls p), urlRef := None\<rparr>)"

definition cleanup :: "provider \<Rightarrow> provider" where
  "cleanup p =
     (let s = rstate p;
          p1 = (case stream s of None \<Rightarrow> p | Some st \<Rightarrow> called (Tracks_stop st) p);
          p2 = (case recorder s of None \<Rightarrow> p1 | Some r \<Rightarrow> called (Recorder_stop r) p1);
          p3 = revoke_urlRef p2;
          p4 = dispatch (SET_STREAM None) p3;
          p5 = dispatch (SET_RECORDER None (mimeType s)) p4;
          p6 = dispatch (SET_BLOB None) p5;
          p7 = dispatch (SET_OBJECT_URL None) p6;
          p8 = dispatch CLEAR_CHUNKS p7;
          p9 = p8\<lparr>chunksRef := []\<rparr>
      in dispatch (SET_STATUS R_idle) p9)"

definition mimeCandidates :: "string list" where
  "mimeCandidates =
     [''video/webm;codecs=vp9,opus'', ''video/webm;codecs=vp8,opus'', ''video/webm'', ''video/mp4'']"

definition init :: "media_env \<Rightarrow> provider \<Rightarrow> provider" where
  "init env p =
     (if \<not> has_window env then p
      else case requestUserMedia env of
             Inl m \<Rightarrow> dispatch (SET_ERROR m) p
           | Inr st \<Rightarrow>
               (let picked = pickSupportedMimeType env mimeCandidates in
                case MediaRecorder_throws env of
                  Some m \<Rightarrow> dispatch (SET_ERROR m) p
                | None \<Rightarrow>
                    (let r = MediaRecorder st picked;
                         p1 = dispatch (SET_STREAM (Some st)) p;
                         p2 = dispatch (SET_RECORDER (Some r) picked) p1;
                         p3 = dispatch (SET_STATUS R_ready) p2;
                         p4 = dispatch CLEAR_CHUNKS p3;
                         p5 = dispatch (SET_BLOB None) p4
                     in dispatch (SET_OBJECT_URL None) p5)))"

text \<open>
  The handlers that \<^verbatim>\<open>init\<close> installs on the recorder \<open>r\<close>. \<^verbatim>\<open>ondataavailable\<close> receives
  the event's \<^verbatim>\<open>data\<close>, if any; \<^verbatim>\<open>onerror\<close> the message of the event's error, if any.
\<close>

definition ondataavailable :: "blob option \<Rightarrow> provider \<Rightarrow> provider" where
  "ondataavailable maybe p =
     (case maybe of
        None \<Rightarrow> p
      | Some d \<Rightarrow>
          if blob_size d > 0 then dispatch (PUSH_CHUNK d) (p\<lparr>chunksRef := chunksRef p @ [d]\<rparr>)
          else p)"

definition onerror :: "string option \<Rightarrow> provider \<Rightarrow> provider" where
  "onerror m p = dispatch (SET_ERROR (case m of None \<Rightarrow> ''Recorder error'' | Some x \<Rightarrow> x)) p"

definition onstop :: "MediaRecorder \<Rightarrow> provider \<Rightarrow> provider" where
  "onstop r p =
     (let btype = or_else (picked_of r) ''video/webm'';
          b = Blob (concat (map blob_bytes (chunksRef p))) btype;
          p1 = dispatch (SET_BLOB (Some b)) p;
          p2 = dispatch CLEAR_CHUNKS p1;
          p3 = p2\<lparr>chunksRef := []\<rparr>;
          p4 = (case urlRef p3 of
                  None \<Rightarrow> p3
                | Some u \<Rightarrow> p3\<lparr>page_urls := revokeObjectURL u (page_urls p3)\<rparr>);
          (url, st) = createObjectURL b (page_urls p4);
          p5 = p4\<lparr>page_urls := st, urlRef := Some url\<rparr>;
          p6 = dispatch (SET_OBJECT_URL (Some url)) p5
      in dispatch (SET_STATUS R_stopped) p6)"

text \<open>
  \<^verbatim>\<open>start\<close> and \<^verbatim>\<open>stop\<close>; \<open>throws\<close> is the message of the exception that the recorder's
  method throws in this call, if it throws.
\<close>

definition start :: "string option \<Rightarrow> provider \<Rightarrow> provider" where
  "start throws p =
     (case recorder (rstate p) of
        None \<Rightarrow> p
      | Some r \<Rightarrow>
          if rec_status (rstate p) = R_recording then p
          else
            (let p1 = dispatch CLEAR_CHUNKS p;
                 p2 = p1\<lparr>chunksRef := []\<rparr>;
                 p3 = called (Recorder_start r) p2
             in case throws of
                  None \<Rightarrow> dispatch (SET_STATUS R_recording) p3
                | Some m \<Rightarrow> dispatch (SET_ERROR m) p3))"

definition stop :: "string option \<Rightarrow> provider \<Rightarrow> provider" where
  "stop throws p =
     (case recorder (rstate p) of
        None \<Rightarrow> p
      | Some r \<Rightarrow>
          if rec_status (rstate p) \<noteq> R_recording then p
          else
            (let p1 = called (Recorder_stop r) p
             in case throws of
                  None \<Rightarrow> p1
                | Some m \<Rightarrow> dispatch (SET_ERROR m) p1))"

definition reset :: "provider \<Rightarrow> provider" where
  "reset p =
     (let p1 = revoke_urlRef p;
          p2 = dispatch (SET_OBJECT_URL None) p1;
          p3 = dispatch CLEAR_CHUNKS p2;
          p4 = p3\<lparr>chunksRef := []\<rparr>
      in dispatch (SET_STATUS (if stream (rstate p) \<noteq> None then R_ready else R_idle)) p4)"

text \<open>A session is a sequence of calls of the API and of events of the recorder.\<close>

datatype rec_op =
    Init media_env
  | Start "string option"
  | Stop "string option"
  | DataAvailable "blob option"
  | RecorderError "string option"
  | RecorderStopped MediaRecorder
  | Reset
  | Cleanup

fun rec_step :: "rec_op \<Rightarrow> provider \<Rightarrow> provider" where
  "rec_step (Init env) p = init env p"
| "rec_step (Start t) p = start t p"
| "rec_step (Stop t) p = stop t p"
| "rec_step (DataAvailable d) p = ondataavailable d p"
| "rec_step (RecorderError m) p = onerror m p"
| "rec_step (RecorderStopped r) p = onstop r p"
| "rec_step Reset p = reset p"
| "rec_step Cleanup p = cleanup p"

definition run_session :: "rec_op list \<Rightarrow> provider \<Rightarrow> provider" where
  "run_session ops p = fold rec_step ops p"


section \<open>Predicates used by the properties\<close>


definition busy_error :: WorkerEvent where
  "busy_error = Ev_error ''FFmpeg worker is busy''"

text \<open>A file name is absent when the engine is gone, not loaded, or holds no such file.\<close>

definition absent :: "string \<Rightarrow> worker \<Rightarrow> bool" where
  "absent name w =
     (case ffmpeg w of
        None \<Rightarrow> True
      | Some e \<Rightarrow> (case core e of None \<Rightarrow> True | Some fs \<Rightarrow> fs name = None))"


text \<open>During a job either the engine has been torn down or the job still holds the flag.\<close>

definition held :: "worker \<Rightarrow> bool" where
  "held w = (ffmpeg w = None \<or> busy w)"

text \<open>Commands that start a job, and schedules in which only such commands arrive.\<close>

fun is_job :: "WorkerCommand \<Rightarrow> bool" where
  "is_job (Cmd_preview p) = True"
| "is_job (Cmd_snapshot q) = True"
| "is_job c = False"

definition jobs_only :: "schedule \<Rightarrow> bool" where
  "jobs_only sched = list_all (list_all is_job) sched"

text \<open>Two worker states that differ at most in the busy errors among the posted events.\<close>

definition same_but_busy_errors :: "worker \<Rightarrow> worker \<Rightarrow> bool" where
  "same_but_busy_errors w w' =
     (ffmpeg w = ffmpeg w' \<and> loading w = loading w' \<and> busy w = busy w'
      \<and> filter (\<lambda>ev. ev \<noteq> busy_error) (posted w) = filter (\<lambda>ev. ev \<noteq> busy_error) (posted w'))"





text \<open>
  During a job the worker holds the given engine and the busy flag, or, in a run that is
  not quiet, the engine may be gone.
\<close>

definition tracks :: "bool \<Rightarrow> engine \<Rightarrow> worker \<Rightarrow> bool" where
  "tracks quiet e w = ((ffmpeg w = Some e \<and> busy w) \<or> (\<not> quiet \<and> ffmpeg w = None))"

text \<open>The object URL of the recorder state and its final blob are null or non-null together.\<close>

definition url_iff_blob :: "provider \<Rightarrow> bool" where
  "url_iff_blob p = ((objectUrl (rstate p) \<noteq> None) = (blob (rstate p) \<noteq> None))"

section \<open>Concrete inputs\<close>

text \<open>
  Platforms, states and sessions at which the properties below are evaluated: a camera
  that grants access and supports plain WebM, cache buckets with both, one or no asset,
  fetches with given HTTP statuses, a fetch that is rejected, a loaded engine with an
  empty file system and one that holds files of earlier work, an engine run that writes
  its output file and one that fails after writing part of it.
\<close>

definition env_camera :: media_env where
  "env_camera = \<lparr>has_window = True, has_MediaRecorder = True,
       isTypeSupported = (\<lambda>t. Some (t = ''video/webm'')),
       isSecureContext = True, hostname = ''localhost'',
       mediaDevices_getUserMedia = Some (Inr 1), legacy_getUserMedia = None,
       MediaRecorder_throws = None\<rparr>"

definition env_quiet :: cache_env where
  "env_quiet = \<lparr>open_rejects = None, fetch_js = Inl ''offline'', fetch_wasm = Inl ''offline'',
                 put_js_rejects = None, put_wasm_rejects = None\<rparr>"

definition env_fetch :: "nat \<Rightarrow> nat \<Rightarrow> cache_env" where
  "env_fetch js_code wasm_code =
     \<lparr>open_rejects = None,
      fetch_js = Inr \<lparr>http_status = js_code, body = [1]\<rparr>,
      fetch_wasm = Inr \<lparr>http_status = wasm_code, body = [2]\<rparr>,
      put_js_rejects = None, put_wasm_rejects = None\<rparr>"

definition env_fetch_rejected :: "nat \<Rightarrow> string \<Rightarrow> cache_env" where
  "env_fetch_rejected js_code reason =
     \<lparr>open_rejects = None,
      fetch_js = Inr \<lparr>http_status = js_code, body = [1]\<rparr>,
      fetch_wasm = Inl reason,
      put_js_rejects = None, put_wasm_rejects = None\<rparr>"

definition win_both :: window where
  "win_both = Window (Some [FFMPEG_CACHE_NAME \<mapsto>
     [CORE_JS_URL \<mapsto> \<lparr>http_status = 200, body = [1]\<rparr>,
      CORE_WASM_URL \<mapsto> \<lparr>http_status = 200, body = [2]\<rparr>]])"

definition win_js_only :: window where
  "win_js_only = Window (Some [FFMPEG_CACHE_NAME \<mapsto> [CORE_JS_URL \<mapsto> \<lparr>http_status = 200, body = [1]\<rparr>]])"

definition win_fresh :: window where
  "win_fresh = Window (Some Map.empty)"


definition session_reset :: "rec_op list" where
  "session_reset =
     [Init env_camera, Start None, DataAvailable (Some (Blob [1, 2] ''video/webm'')), Stop None,
      RecorderStopped (MediaRecorder 1 (Some ''video/webm'')), Reset]"

definition session_start_failed :: "rec_op list" where
  "session_start_failed = [Init env_camera, Start (Some ''InvalidStateError'')]"

definition session_cleanup_while_recording :: "rec_op list" where
  "session_cleanup_while_recording =
     [Init env_camera, Start None, Cleanup, RecorderStopped (MediaRecorder 1 (Some ''video/webm''))]"

definition engine_ready :: engine where
  "engine_ready = \<lparr>listening = True, core = Some Map.empty\<rparr>"

definition worker_ready :: worker where
  "worker_ready = \<lparr>ffmpeg = Some engine_ready, loading = False, busy = False, posted = []\<rparr>"

definition worker_busy :: worker where
  "worker_busy = \<lparr>ffmpeg = Some engine_ready, loading = False, busy = True, posted = []\<rparr>"



definition env_ok :: ffmpeg_env where
  "env_ok = \<lparr>toBlobURL = (\<lambda>u m. Inr (''blob:'' @ u)),
             load_result = (\<lambda>c w. None),
             exec_result = (\<lambda>args fs. ([LogNote ''frame=1''], None, fs(last args \<mapsto> [7, 7, 7])))\<rparr>"

definition env_exec_fails :: ffmpeg_env where
  "env_exec_fails = \<lparr>toBlobURL = (\<lambda>u m. Inr (''blob:'' @ u)),
             load_result = (\<lambda>c w. None),
             exec_result = (\<lambda>args fs. ([], Some (Error ''Aborted()''), fs(last args \<mapsto> [7])))\<rparr>"

definition params0 :: PreviewParams where
  "params0 = \<lparr>data = [1, 2, 3], inputName = None, scaleHeight = Some (Num 720), scaleWidth = None,
         start_pos = None, duration = None, toMp4 = None, crf = None, preset = None\<rparr>"

definition snap0 :: SnapshotParams where
  "snap0 = \<lparr>data = [1, 2, 3], inputName = None, scaleHeight = None, scaleWidth = Some (Num 1280),
         at_time = None, quality = None\<rparr>"

chapter \<open>Verified properties\<close>

section \<open>Properties of \<^verbatim>\<open>scaleFilter\<close>\<close>

lemma scaleFilter_table:
  "scaleFilter \<lparr>width = w, height = h\<rparr> =
     (if truthy w \<and> truthy h then [''-vf'', ''scale='' @ template w @ '':'' @ template h]
      else if truthy h then [''-vf'', ''scale=-2:'' @ template h]
      else if truthy w then [''-vf'', ''scale='' @ template w @ '':-2'']
      else [])"
  by (simp add: scaleFilter_def)

lemma truthy_zero [simp]: "\<not> truthy (Some (Num 0))"
  by simp

text \<open>
  C7 (as stated, refuted). With both dimensions given, width \<open>0\<close> and height \<open>720\<close>,
  exact dimensions would be the filter \<open>scale=0:720\<close>; the code emits the aspect-preserving
  \<open>scale=-2:720\<close>, because \<^verbatim>\<open>opts.width\<close> is tested for truthiness and \<open>0\<close> is falsy.
\<close>

theorem scaleFilter_both_given_counterexample:
  "scaleFilter \<lparr>width = Some (Num 0), height = Some (Num 720)\<rparr> = [''-vf'', ''scale=-2:720'']
   \<and> scaleFilter \<lparr>width = Some (Num 0), height = Some (Num 720)\<rparr>
       \<noteq> [''-vf'', ''scale=0:720'']"
  by code_simp

text \<open>
  C7 (amended). For every combination of optional width and height, \<open>scaleFilter\<close> derives
  at most one scale expression, decided by which dimensions are given and truthy
  (non-zero, not \<open>NaN\<close>): only the height gives \<open>scale=-2:<h>\<close>, only the width gives
  \<open>scale=<w>:-2\<close>, both give \<open>scale=<w>:<h>\<close>, neither gives the empty argument list.
\<close>

theorem scaleFilter_derivation:
  "scaleFilter \<lparr>width = w, height = h\<rparr> =
     (case (truthy w, truthy h) of
        (False, True) \<Rightarrow> [''-vf'', ''scale=-2:'' @ template h]
      | (True, False) \<Rightarrow> [''-vf'', ''scale='' @ template w @ '':-2'']
      | (True, True) \<Rightarrow> [''-vf'', ''scale='' @ template w @ '':'' @ template h]
      | (False, False) \<Rightarrow> [])"
  by (simp add: scaleFilter_table)

theorem scaleFilter_derivation_witness:
  "scaleFilter \<lparr>width = None, height = Some (Num 720)\<rparr> = [''-vf'', ''scale=-2:720'']
   \<and> scaleFilter \<lparr>width = Some (Num 1280), height = None\<rparr> = [''-vf'', ''scale=1280:-2'']
   \<and> scaleFilter \<lparr>width = Some (Num 1280), height = Some (Num 720)\<rparr>
       = [''-vf'', ''scale=1280:720'']
   \<and> scaleFilter \<lparr>width = None, height = None\<rparr> = []"
proof -
  have s720: "show_nat 720 = ''720''" by code_simp
  have s1280: "show_nat 1280 = ''1280''" by code_simp
  show ?thesis
    using scaleFilter_derivation [of None "Some (Num 720)"]
      scaleFilter_derivation [of "Some (Num 1280)" None]
      scaleFilter_derivation [of "Some (Num 1280)" "Some (Num 720)"]
      scaleFilter_derivation [of None None]
    by (simp add: s720 s1280)
qed

text \<open>
  C10. A width or height equal to \<open>0\<close> is treated as absent: with width \<open>0\<close> and a
  requested (truthy) height \<open>h\<close> the filter is \<open>scale=-2:<h>\<close>, with height \<open>0\<close> and a
  requested width \<open>w\<close> it is \<open>scale=<w>:-2\<close>, with both \<open>0\<close> no filter is emitted; in
  general a \<open>0\<close> may be replaced by \<^verbatim>\<open>undefined\<close> without changing the result, and every
  dimension that appears in an emitted filter is non-zero.
\<close>

theorem scaleFilter_zero_is_absent:
  "(truthy (Some h) \<longrightarrow>
      scaleFilter \<lparr>width = Some (Num 0), height = Some h\<rparr> = [''-vf'', ''scale=-2:'' @ String_num h])
   \<and> (truthy (Some w) \<longrightarrow>
      scaleFilter \<lparr>width = Some w, height = Some (Num 0)\<rparr> = [''-vf'', ''scale='' @ String_num w @ '':-2''])
   \<and> scaleFilter \<lparr>width = Some (Num 0), height = Some (Num 0)\<rparr> = []
   \<and> scaleFilter \<lparr>width = Some (Num 0), height = y\<rparr> = scaleFilter \<lparr>width = None, height = y\<rparr>
   \<and> scaleFilter \<lparr>width = x, height = Some (Num 0)\<rparr> = scaleFilter \<lparr>width = x, height = None\<rparr>
   \<and> (scaleFilter \<lparr>width = x, height = y\<rparr> = []
        \<or> (\<exists>b. b \<noteq> Num 0 \<and> scaleFilter \<lparr>width = x, height = y\<rparr> = [''-vf'', ''scale=-2:'' @ String_num b])
        \<or> (\<exists>a. a \<noteq> Num 0 \<and> scaleFilter \<lparr>width = x, height = y\<rparr> = [''-vf'', ''scale='' @ String_num a @ '':-2''])
        \<or> (\<exists>a b. a \<noteq> Num 0 \<and> b \<noteq> Num 0 \<and>
              scaleFilter \<lparr>width = x, height = y\<rparr> = [''-vf'', ''scale='' @ String_num a @ '':'' @ String_num b]))"
proof -
  have nz: "\<And>v. truthy v \<Longrightarrow> \<exists>a. v = Some a \<and> a \<noteq> Num 0 \<and> template v = String_num a"
    by (metis option.exhaust template.simps(2) truthy.simps(1) truthy_zero)
  have last: "scaleFilter \<lparr>width = x, height = y\<rparr> = []
        \<or> (\<exists>b. b \<noteq> Num 0 \<and> scaleFilter \<lparr>width = x, height = y\<rparr> = [''-vf'', ''scale=-2:'' @ String_num b])
        \<or> (\<exists>a. a \<noteq> Num 0 \<and> scaleFilter \<lparr>width = x, height = y\<rparr> = [''-vf'', ''scale='' @ String_num a @ '':-2''])
        \<or> (\<exists>a b. a \<noteq> Num 0 \<and> b \<noteq> Num 0 \<and>
              scaleFilter \<lparr>width = x, height = y\<rparr> = [''-vf'', ''scale='' @ String_num a @ '':'' @ String_num b])"
  proof (cases "truthy x"; cases "truthy y")
    assume t: "truthy x" "truthy y"
    then obtain a b where ab: "x = Some a" "a \<noteq> Num 0" "y = Some b" "b \<noteq> Num 0"
      using nz by blast
    with t have "scaleFilter \<lparr>width = x, height = y\<rparr>
        = [''-vf'', ''scale='' @ String_num a @ '':'' @ String_num b]"
      by (simp add: scaleFilter_table)
    with ab show ?thesis by blast
  next
    assume t: "truthy x" "\<not> truthy y"
    then obtain a where ab: "x = Some a" "a \<noteq> Num 0" using nz by blast
    with t have "scaleFilter \<lparr>width = x, height = y\<rparr> = [''-vf'', ''scale='' @ String_num a @ '':-2'']"
      by (simp add: scaleFilter_table)
    with ab show ?thesis by blast
  next
    assume t: "\<not> truthy x" "truthy y"
    then obtain b where ab: "y = Some b" "b \<noteq> Num 0" using nz by blast
    with t have "scaleFilter \<lparr>width = x, height = y\<rparr> = [''-vf'', ''scale=-2:'' @ String_num b]"
      by (simp add: scaleFilter_table)
    with ab show ?thesis by blast
  next
    assume "\<not> truthy x" "\<not> truthy y"
    then show ?thesis by (simp add: scaleFilter_table)
  qed
  show ?thesis
    using last by (simp add: scaleFilter_table)
qed

theorem scaleFilter_zero_is_absent_witness:
  "truthy (Some (Num 720)) \<and> truthy (Some (Num 1280))
   \<and> scaleFilter \<lparr>width = Some (Num 0), height = Some (Num 720)\<rparr> = [''-vf'', ''scale=-2:720'']
   \<and> scaleFilter \<lparr>width = Some (Num 1280), height = Some (Num 0)\<rparr> = [''-vf'', ''scale=1280:-2'']
   \<and> scaleFilter \<lparr>width = Some (Num 0), height = Some (Num 0)\<rparr> = []"
proof -
  have s720: "show_nat 720 = ''720''" by code_simp
  have s1280: "show_nat 1280 = ''1280''" by code_simp
  show ?thesis
    using scaleFilter_zero_is_absent [of "Num 720" "Num 1280" None None]
    by (simp add: s720 s1280)
qed


section \<open>Properties of the asset cache\<close>

lemma asset_urls_differ [simp]: "CORE_JS_URL \<noteq> CORE_WASM_URL" "CORE_WASM_URL \<noteq> CORE_JS_URL"
  by (simp_all add: CORE_JS_URL_def CORE_WASM_URL_def)

lemma bucket_Window:
  "bucket (Window (Some cs)) = (case cs FFMPEG_CACHE_NAME of None \<Rightarrow> Map.empty | Some c \<Rightarrow> c)"
  by (simp add: bucket_def)

lemma bucket_open [simp]:
  "bucket (Window (Some (snd (caches_open FFMPEG_CACHE_NAME cs)))) = bucket (Window (Some cs))"
  by (simp add: bucket_Window caches_open_def split: option.splits)

lemma fst_open [simp]:
  "fst (caches_open FFMPEG_CACHE_NAME cs) = bucket (Window (Some cs))"
  by (simp add: bucket_Window caches_open_def split: option.splits)

lemma bucket_put [simp]:
  "bucket (Window (Some (cache_put FFMPEG_CACHE_NAME url res cs))) = (bucket (Window (Some cs)))(url \<mapsto> res)"
  by (simp add: bucket_Window cache_put_def split: option.splits)

lemma getCaches_Some: "getCaches win = Some cs \<Longrightarrow> win = Window (Some cs)"
  by (cases win) simp_all

text \<open>
  C5. Whenever the storage API is available and the bucket opens, \<open>isCoreCached\<close> answers
  \<open>True\<close> if and only if both asset keys, the core script URL and the WASM URL, are
  present in the bucket; when the storage API is unavailable it answers \<open>False\<close> and does
  not throw, whatever the environment does.
\<close>

theorem isCoreCached_iff_both_present:
  "(getCaches win \<noteq> None \<and> open_rejects env = None \<longrightarrow>
      fst (isCoreCached env win)
        = Inr (CORE_JS_URL \<in> dom (bucket win) \<and> CORE_WASM_URL \<in> dom (bucket win)))
   \<and> (getCaches win = None \<longrightarrow> isCoreCached env win = (Inr False, win))"
proof (intro conjI impI)
  assume a: "getCaches win \<noteq> None \<and> open_rejects env = None"
  then obtain cs where cs: "win = Window (Some cs)"
    using getCaches_Some by blast
  have "fst (isCoreCached env win)
      = Inr (fst (caches_open FFMPEG_CACHE_NAME cs) CORE_JS_URL \<noteq> None
             \<and> fst (caches_open FFMPEG_CACHE_NAME cs) CORE_WASM_URL \<noteq> None)"
    using a cs by (simp add: isCoreCached_def split_beta Let_def)
  then show "fst (isCoreCached env win)
      = Inr (CORE_JS_URL \<in> dom (bucket win) \<and> CORE_WASM_URL \<in> dom (bucket win))"
    using cs by (simp add: dom_def)
next
  assume "getCaches win = None"
  then show "isCoreCached env win = (Inr False, win)"
    by (simp add: isCoreCached_def)
qed

theorem isCoreCached_iff_both_present_witness:
  "getCaches win_both \<noteq> None \<and> getCaches win_js_only \<noteq> None \<and> open_rejects env_quiet = None
   \<and> fst (isCoreCached env_quiet win_both) = Inr True
   \<and> fst (isCoreCached env_quiet win_js_only) = Inr False
   \<and> getCaches NoWindow = None
   \<and> isCoreCached env_quiet NoWindow = (Inr False, NoWindow)"
  using isCoreCached_iff_both_present [of win_both env_quiet]
    isCoreCached_iff_both_present [of win_js_only env_quiet]
    isCoreCached_iff_both_present [of NoWindow env_quiet]
  by (simp add: win_both_def win_js_only_def env_quiet_def bucket_Window)

text \<open>Clearing the bucket removes both keys, so the cache then reports \<open>False\<close>.\<close>

lemma isCoreCached_after_clear:
  "open_rejects env = None \<Longrightarrow> fst (isCoreCached env (clearCoreCache win)) = Inr False"
  by (cases win rule: getCaches.cases)
     (auto simp: isCoreCached_def clearCoreCache_def caches_open_def split: option.splits)

lemma cacheCoreAssets_Window:
  "cacheCoreAssets env (Window (Some cs)) =
     (case open_rejects env of
        Some e \<Rightarrow> (Inl e, Window (Some cs))
      | None \<Rightarrow>
          (let caches1 = snd (caches_open FFMPEG_CACHE_NAME cs) in
           case fetch_js env of
             Inl e \<Rightarrow> (Inl e, Window (Some caches1))
           | Inr js \<Rightarrow>
               (case fetch_wasm env of
                  Inl e \<Rightarrow> (Inl e, Window (Some caches1))
                | Inr wasm \<Rightarrow>
                    if \<not> ok js
                    then (Inl (''Failed to fetch ffmpeg-core.js: '' @ show_nat (http_status js)), Window (Some caches1))
                    else if \<not> ok wasm
                    then (Inl (''Failed to fetch ffmpeg-core.wasm: '' @ show_nat (http_status wasm)), Window (Some caches1))
                    else (case put_js_rejects env of
                            Some e \<Rightarrow> (Inl e, Window (Some (case put_wasm_rejects env of
                                             None \<Rightarrow> cache_put FFMPEG_CACHE_NAME CORE_WASM_URL wasm caches1
                                           | Some e \<Rightarrow> caches1)))
                          | None \<Rightarrow>
                             (case put_wasm_rejects env of
                                Some e \<Rightarrow> (Inl e, Window (Some (cache_put FFMPEG_CACHE_NAME CORE_JS_URL js caches1)))
                              | None \<Rightarrow> (Inr (), Window (Some (cache_put FFMPEG_CACHE_NAME CORE_WASM_URL wasm
                                              (cache_put FFMPEG_CACHE_NAME CORE_JS_URL js caches1)))))))))"
  by (simp add: cacheCoreAssets_def split_beta Let_def split: option.splits sum.splits)

text \<open>
  C6 (as stated, refuted). The script fetch answers with status \<open>404\<close> and the WASM fetch
  is rejected (the network is down): both fetches are awaited together, so the call fails
  with the rejection of the WASM fetch, and the status \<open>404\<close> of the script appears nowhere
  in the error.
\<close>

theorem cacheCoreAssets_rejected_fetch_counterexample:
  "fetch_js (env_fetch_rejected 404 ''NetworkError'') = Inr \<lparr>http_status = 404, body = [1]\<rparr>
   \<and> \<not> ok \<lparr>http_status = 404, body = [1]\<rparr>
   \<and> getCaches win_fresh = Some Map.empty
   \<and> fst (cacheCoreAssets (env_fetch_rejected 404 ''NetworkError'') win_fresh) = Inl ''NetworkError''
   \<and> fst (cacheCoreAssets (env_fetch_rejected 404 ''NetworkError'') win_fresh)
        \<noteq> Inl ''Failed to fetch ffmpeg-core.js: 404''"
  by (simp add: env_fetch_rejected_def win_fresh_def ok_def cacheCoreAssets_Window Let_def)

text \<open>
  C6 (amended). \<open>cacheCoreAssets\<close> fails with the message
  ``Cache Storage API is not available in this environment'' when the storage API is
  absent. When both fetches settle with a response, it fails with a message that embeds
  the status of the script if that is not a success, and otherwise the status of the
  WASM if that is not a success. When a fetch is rejected it fails with the rejection of
  one of the two fetches, whatever the status of the other response. On all these paths
  the entries of the bucket stay as they were; both responses are stored under their URL
  keys when both fetches succeed (and the puts resolve), and the bucket's entries change
  only if both fetches succeeded.
\<close>

theorem cacheCoreAssets_stores_only_on_success:
  "(getCaches win = None \<longrightarrow>
      cacheCoreAssets env win = (Inl ''Cache Storage API is not available in this environment'', win))
   \<and> (getCaches win \<noteq> None \<and> open_rejects env = None \<and> fetch_js env = Inr js \<and> fetch_wasm env = Inr wasm \<longrightarrow>
        (\<not> ok js \<longrightarrow>
           fst (cacheCoreAssets env win) = Inl (''Failed to fetch ffmpeg-core.js: '' @ show_nat (http_status js))
           \<and> bucket (snd (cacheCoreAssets env win)) = bucket win)
        \<and> (ok js \<and> \<not> ok wasm \<longrightarrow>
           fst (cacheCoreAssets env win) = Inl (''Failed to fetch ffmpeg-core.wasm: '' @ show_nat (http_status wasm))
           \<and> bucket (snd (cacheCoreAssets env win)) = bucket win)
        \<and> (ok js \<and> ok wasm \<and> put_js_rejects env = None \<and> put_wasm_rejects env = None \<longrightarrow>
           fst (cacheCoreAssets env win) = Inr ()
           \<and> bucket (snd (cacheCoreAssets env win)) = (bucket win)(CORE_JS_URL \<mapsto> js, CORE_WASM_URL \<mapsto> wasm)))
   \<and> (getCaches win \<noteq> None \<and> open_rejects env = None
        \<and> ((\<exists>reason. fetch_js env = Inl reason) \<or> (\<exists>reason. fetch_wasm env = Inl reason)) \<longrightarrow>
        (\<exists>reason. fst (cacheCoreAssets env win) = Inl reason
                  \<and> (fetch_js env = Inl reason \<or> fetch_wasm env = Inl reason))
        \<and> bucket (snd (cacheCoreAssets env win)) = bucket win)
   \<and> (bucket (snd (cacheCoreAssets env win)) \<noteq> bucket win \<longrightarrow>
        (\<exists>js wasm. fetch_js env = Inr js \<and> fetch_wasm env = Inr wasm \<and> ok js \<and> ok wasm))"
proof (cases "getCaches win")
  case None
  then show ?thesis by (simp add: cacheCoreAssets_def)
next
  case (Some cs)
  then have win: "win = Window (Some cs)" by (rule getCaches_Some)
  show ?thesis
    unfolding win cacheCoreAssets_Window
    by (auto simp: Let_def split: option.splits sum.splits)
qed

theorem cacheCoreAssets_stores_only_on_success_witness:
  "getCaches NoWindow = None
   \<and> cacheCoreAssets env_quiet NoWindow
       = (Inl ''Cache Storage API is not available in this environment'', NoWindow)
   \<and> getCaches win_js_only \<noteq> None \<and> open_rejects (env_fetch 404 200) = None
   \<and> \<not> ok \<lparr>http_status = 404, body = [1]\<rparr>
   \<and> fst (cacheCoreAssets (env_fetch 404 200) win_js_only) = Inl ''Failed to fetch ffmpeg-core.js: 404''
   \<and> bucket (snd (cacheCoreAssets (env_fetch 404 200) win_js_only)) = bucket win_js_only
   \<and> ok \<lparr>http_status = 200, body = [1]\<rparr> \<and> \<not> ok \<lparr>http_status = 503, body = [2]\<rparr>
   \<and> fst (cacheCoreAssets (env_fetch 200 503) win_fresh) = Inl ''Failed to fetch ffmpeg-core.wasm: 503''
   \<and> bucket (snd (cacheCoreAssets (env_fetch 200 503) win_fresh)) = bucket win_fresh
   \<and> ok \<lparr>http_status = 200, body = [2]\<rparr>
   \<and> fst (cacheCoreAssets (env_fetch 200 200) win_fresh) = Inr ()
   \<and> bucket (snd (cacheCoreAssets (env_fetch 200 200) win_fresh)) \<noteq> bucket win_fresh
   \<and> bucket (snd (cacheCoreAssets (env_fetch 200 200) win_fresh)) = bucket win_both
   \<and> fetch_wasm (env_fetch_rejected 200 ''offline'') = Inl ''offline''
   \<and> fst (cacheCoreAssets (env_fetch_rejected 200 ''offline'') win_js_only) = Inl ''offline''
   \<and> bucket (snd (cacheCoreAssets (env_fetch_rejected 200 ''offline'') win_js_only)) = bucket win_js_only"
proof -
  have n404: "show_nat 404 = ''404''" and n503: "show_nat 503 = ''503''"
    by code_simp+
  have differ: "bucket win_both \<noteq> bucket win_fresh"
  proof
    assume "bucket win_both = bucket win_fresh"
    then have "bucket win_both CORE_JS_URL = bucket win_fresh CORE_JS_URL" by simp
    then show False by (simp add: win_both_def win_fresh_def bucket_Window)
  qed
  have same: "(bucket win_fresh)(CORE_JS_URL \<mapsto> \<lparr>http_status = 200, body = [1]\<rparr>,
        CORE_WASM_URL \<mapsto> \<lparr>http_status = 200, body = [2]\<rparr>) = bucket win_both"
    by (simp add: win_both_def win_fresh_def bucket_Window)
  have statuses: "getCaches NoWindow = None
   \<and> cacheCoreAssets env_quiet NoWindow
       = (Inl ''Cache Storage API is not available in this environment'', NoWindow)
   \<and> getCaches win_js_only \<noteq> None \<and> open_rejects (env_fetch 404 200) = None
   \<and> \<not> ok \<lparr>http_status = 404, body = [1]\<rparr>
   \<and> fst (cacheCoreAssets (env_fetch 404 200) win_js_only) = Inl ''Failed to fetch ffmpeg-core.js: 404''
   \<and> bucket (snd (cacheCoreAssets (env_fetch 404 200) win_js_only)) = bucket win_js_only
   \<and> ok \<lparr>http_status = 200, body = [1]\<rparr> \<and> \<not> ok \<lparr>http_status = 503, body = [2]\<rparr>
   \<and> fst (cacheCoreAssets (env_fetch 200 503) win_fresh) = Inl ''Failed to fetch ffmpeg-core.wasm: 503''
   \<and> bucket (snd (cacheCoreAssets (env_fetch 200 503) win_fresh)) = bucket win_fresh
   \<and> ok \<lparr>http_status = 200, body = [2]\<rparr>
   \<and> fst (cacheCoreAssets (env_fetch 200 200) win_fresh) = Inr ()
   \<and> bucket (snd (cacheCoreAssets (env_fetch 200 200) win_fresh)) \<noteq> bucket win_fresh
   \<and> bucket (snd (cacheCoreAssets (env_fetch 200 200) win_fresh)) = bucket win_both"
    using cacheCoreAssets_stores_only_on_success [of NoWindow env_quiet]
      cacheCoreAssets_stores_only_on_success [of win_js_only "env_fetch 404 200"
        "\<lparr>http_status = 404, body = [1]\<rparr>" "\<lparr>http_status = 200, body = [2]\<rparr>"]
      cacheCoreAssets_stores_only_on_success [of win_fresh "env_fetch 200 503"
        "\<lparr>http_status = 200, body = [1]\<rparr>" "\<lparr>http_status = 503, body = [2]\<rparr>"]
      cacheCoreAssets_stores_only_on_success [of win_fresh "env_fetch 200 200"
        "\<lparr>http_status = 200, body = [1]\<rparr>" "\<lparr>http_status = 200, body = [2]\<rparr>"]
      differ same
    by (simp add: env_fetch_def ok_def n404 n503 win_js_only_def win_fresh_def)
  have hyp: "getCaches win_js_only \<noteq> None \<and> open_rejects (env_fetch_rejected 200 ''offline'') = None
      \<and> ((\<exists>reason. fetch_js (env_fetch_rejected 200 ''offline'') = Inl reason)
          \<or> (\<exists>reason. fetch_wasm (env_fetch_rejected 200 ''offline'') = Inl reason))"
    by (simp add: env_fetch_rejected_def win_js_only_def)
  note rejected = cacheCoreAssets_stores_only_on_success [where win = win_js_only and env = "env_fetch_rejected 200 ''offline''",
      THEN conjunct2, THEN conjunct2, THEN conjunct1, rule_format, OF hyp]
  have r: "fetch_wasm (env_fetch_rejected 200 ''offline'') = Inl ''offline''
   \<and> fst (cacheCoreAssets (env_fetch_rejected 200 ''offline'') win_js_only) = Inl ''offline''
   \<and> bucket (snd (cacheCoreAssets (env_fetch_rejected 200 ''offline'') win_js_only)) = bucket win_js_only"
    using rejected by (auto simp: env_fetch_rejected_def)
  show ?thesis
    using statuses r by blast
qed

section \<open>Properties of the bridge\<close>

text \<open>
  C2 (evaluated on the code). The progress handler stores the ratio as it arrives:
  ratio \<open>1.7\<close> gives progress \<open>1.7\<close>, not \<open>1\<close>, and ratio \<open>-0.2\<close> gives \<open>-0.2\<close>, not \<open>0\<close>.
\<close>

theorem progress_update_not_clamped:
  "progress (state (w_onmessage (Ev_progress (Some (17 / 10)) None) hook_init)) = 17 / 10
   \<and> \<not> progress (state (w_onmessage (Ev_progress (Some (17 / 10)) None) hook_init)) \<le> 1
   \<and> progress (state (w_onmessage (Ev_progress (Some (- 2 / 10)) None) hook_init)) = - 2 / 10
   \<and> \<not> 0 \<le> progress (state (w_onmessage (Ev_progress (Some (- 2 / 10)) None) hook_init))"
  by (simp add: setState_def)

lemma progress_stored_as_received:
  "progress (state (w_onmessage (Ev_progress (Some r) t) h)) = r"
  by (simp add: setState_def)

lemma live_urls_create [simp]:
  "live_urls (snd (createObjectURL b st)) = live_urls st @ [next_url st]"
  "next_url (snd (createObjectURL b st)) = Suc (next_url st)"
  "fst (createObjectURL b st) = next_url st"
  by (simp_all add: createObjectURL_def live_urls_def)

lemma live_urls_revoke [simp]:
  "live_urls (revokeObjectURL u st) = filter (\<lambda>v. v \<noteq> u) (live_urls st)"
  "next_url (revokeObjectURL u st) = next_url st"
  by (simp_all add: revokeObjectURL_def live_urls_def filter_map comp_def case_prod_unfold)

lemma live_urls_revoke_ref [simp]:
  "live_urls (revoke_ref r st) = (case r of None \<Rightarrow> live_urls st | Some u \<Rightarrow> filter (\<lambda>v. v \<noteq> u) (live_urls st))"
  "next_url (revoke_ref r st) = next_url st"
  by (simp_all add: revoke_ref_def split: option.splits)

lemma mint_result_simps [simp]:
  "fst (mint_result d mime h) = next_url (urls h)"
  "live_urls (urls (snd (mint_result d mime h))) = live_urls (urls h) @ [next_url (urls h)]"
  "next_url (urls (snd (mint_result d mime h))) = Suc (next_url (urls h))"
  "previewUrlRef (snd (mint_result d mime h)) = previewUrlRef h"
  "snapshotUrlRef (snd (mint_result d mime h)) = snapshotUrlRef h"
  by (simp_all add: mint_result_def split_beta Let_def)

lemma install_result_simps [simp]:
  "live_urls (urls (install_result Preview u h)) =
     (case previewUrlRef h of None \<Rightarrow> live_urls (urls h) | Some old \<Rightarrow> filter (\<lambda>v. v \<noteq> old) (live_urls (urls h)))"
  "live_urls (urls (install_result Snapshot u h)) =
     (case snapshotUrlRef h of None \<Rightarrow> live_urls (urls h) | Some old \<Rightarrow> filter (\<lambda>v. v \<noteq> old) (live_urls (urls h)))"
  "next_url (urls (install_result kind u h)) = next_url (urls h)"
  "previewUrlRef (install_result kind u h) = (case kind of Preview \<Rightarrow> Some u | Snapshot \<Rightarrow> previewUrlRef h)"
  "snapshotUrlRef (install_result kind u h) = (case kind of Snapshot \<Rightarrow> Some u | Preview \<Rightarrow> snapshotUrlRef h)"
  by (cases kind; simp add: setState_def Let_def)+

declare install_result.simps [simp del]










section \<open>Properties of the recorder\<close>

lemmas recorder_defs =
  init_def start_def stop_def reset_def cleanup_def onstop_def onerror_def ondataavailable_def
  dispatch_def called_def revoke_urlRef_def

text \<open>
  C4 (evaluated on the code). After a take has been recorded and stopped, \<open>reset\<close>
  revokes and clears the object URL but leaves the final blob in the state: the blob is
  non-null while the object URL is null.
\<close>

theorem reset_leaves_blob_without_object_url:
  "blob (rstate (run_session session_reset provider_init)) = Some (Blob [1, 2] ''video/webm'')
   \<and> objectUrl (rstate (run_session session_reset provider_init)) = None
   \<and> rec_status (rstate (run_session session_reset provider_init)) = R_ready
   \<and> live_urls (page_urls (run_session session_reset provider_init)) = []"
  by (simp add: run_session_def session_reset_def provider_init_def initialState_def env_camera_def
        recorder_defs requestUserMedia_def pickSupportedMimeType_def mimeCandidates_def
        createObjectURL_def revokeObjectURL_def no_urls_def live_urls_def or_else_def Let_def)

text \<open>
  Every other operation keeps the object URL and the blob null or non-null together;
  \<open>init\<close> and \<open>cleanup\<close> clear both, the stop handler sets both.
\<close>

lemma url_iff_blob_kept_by_all_but_reset:
  "url_iff_blob p \<Longrightarrow> op \<noteq> Reset \<Longrightarrow> url_iff_blob (rec_step op p)"
  by (cases op)
     (auto simp: url_iff_blob_def recorder_defs Let_def split_beta split: option.splits sum.splits)

text \<open>
  C9 (as stated, refuted). After a failed \<open>start\<close> the status is \<open>error\<close> and the recorder
  still exists; \<open>start\<close> is then not a no-op: it runs and the status becomes \<open>recording\<close>.
  Conversely, when \<open>cleanup\<close> is called during a recording, the recorder's stop handler
  leaves the status \<open>stopped\<close> with no recorder, and \<open>start\<close> does nothing.
\<close>

theorem start_guard_is_not_the_status_counterexample:
  "rec_status (rstate (run_session session_start_failed provider_init)) = R_error
   \<and> start None (run_session session_start_failed provider_init)
       \<noteq> run_session session_start_failed provider_init
   \<and> rec_status (rstate (start None (run_session session_start_failed provider_init))) = R_recording
   \<and> rec_status (rstate (run_session session_cleanup_while_recording provider_init)) = R_stopped
   \<and> start None (run_session session_cleanup_while_recording provider_init)
       = run_session session_cleanup_while_recording provider_init"
proof -
  have 1: "rec_status (rstate (run_session session_start_failed provider_init)) = R_error"
    and 2: "recorder (rstate (run_session session_start_failed provider_init))
              = Some (MediaRecorder 1 (Some ''video/webm''))"
    by (simp_all add: run_session_def session_start_failed_def provider_init_def initialState_def
          env_camera_def recorder_defs requestUserMedia_def pickSupportedMimeType_def
          mimeCandidates_def Let_def)
  have 3: "rec_status (rstate (start None (run_session session_start_failed provider_init))) = R_recording"
    using 1 2 by (simp add: start_def dispatch_def called_def Let_def)
  have 4: "rec_status (rstate (run_session session_cleanup_while_recording provider_init)) = R_stopped"
    and 5: "recorder (rstate (run_session session_cleanup_while_recording provider_init)) = None"
    by (simp_all add: run_session_def session_cleanup_while_recording_def provider_init_def
          initialState_def env_camera_def recorder_defs requestUserMedia_def
          pickSupportedMimeType_def mimeCandidates_def createObjectURL_def no_urls_def Let_def)
  have 6: "start None (run_session session_cleanup_while_recording provider_init)
       = run_session session_cleanup_while_recording provider_init"
    using 5 by (simp add: start_def)
  have 7: "start None (run_session session_start_failed provider_init)
       \<noteq> run_session session_start_failed provider_init"
    using 1 3 by auto
  show ?thesis using 1 3 4 6 7 by simp
qed

text \<open>
  C9 (amended). \<open>start\<close> is a no-op exactly when there is no recorder or the status is
  \<open>recording\<close>. Otherwise, whatever the status (\<open>ready\<close>, \<open>stopped\<close>, and also \<open>error\<close> or
  \<open>idle\<close>), it clears the chunks, calls the recorder's \<open>start\<close>, and sets the status to
  \<open>recording\<close>, or to \<open>error\<close> with the message when that call throws.
\<close>

theorem start_noop_iff_no_recorder_or_recording:
  "((start t p = p) = (recorder (rstate p) = None \<or> rec_status (rstate p) = R_recording))
   \<and> (\<forall>r. recorder (rstate p) = Some r \<and> rec_status (rstate p) \<noteq> R_recording \<longrightarrow>
         start None p
           = p\<lparr>rstate := (rstate p)\<lparr>chunks := [], rec_status := R_recording\<rparr>, chunksRef := [],
               device_log := device_log p @ [Recorder_start r]\<rparr>
         \<and> start (Some m) p
           = p\<lparr>rstate := (rstate p)\<lparr>chunks := [], rec_status := R_error, errorMessage := Some m\<rparr>,
               chunksRef := [], device_log := device_log p @ [Recorder_start r]\<rparr>)"
proof -
  have grows: "device_log (start t p) = device_log p @ [Recorder_start r]"
    if "recorder (rstate p) = Some r" "rec_status (rstate p) \<noteq> R_recording" for r
    using that by (cases t) (simp_all add: start_def dispatch_def called_def Let_def)
  have noop: "start t p = p" if "recorder (rstate p) = None \<or> rec_status (rstate p) = R_recording"
    using that by (auto simp: start_def split: option.splits)
  have changed: "start t p \<noteq> p"
    if "\<not> (recorder (rstate p) = None \<or> rec_status (rstate p) = R_recording)"
  proof
    assume eq: "start t p = p"
    from that obtain r where "recorder (rstate p) = Some r" "rec_status (rstate p) \<noteq> R_recording"
      by auto
    from grows [OF this] eq show False by simp
  qed
  have runs: "start None p
           = p\<lparr>rstate := (rstate p)\<lparr>chunks := [], rec_status := R_recording\<rparr>, chunksRef := [],
               device_log := device_log p @ [Recorder_start r]\<rparr>
         \<and> start (Some m) p
           = p\<lparr>rstate := (rstate p)\<lparr>chunks := [], rec_status := R_error, errorMessage := Some m\<rparr>,
               chunksRef := [], device_log := device_log p @ [Recorder_start r]\<rparr>"
    if "recorder (rstate p) = Some r \<and> rec_status (rstate p) \<noteq> R_recording" for r
    using that by (simp add: start_def dispatch_def called_def Let_def)
  show ?thesis
    using noop changed runs by blast
qed

theorem start_noop_iff_no_recorder_or_recording_witness:
  "recorder (rstate (run_session [Init env_camera] provider_init)) = Some (MediaRecorder 1 (Some ''video/webm''))
   \<and> rec_status (rstate (run_session [Init env_camera] provider_init)) = R_ready
   \<and> start None (run_session [Init env_camera] provider_init) \<noteq> run_session [Init env_camera] provider_init
   \<and> rec_status (rstate (start None (run_session [Init env_camera] provider_init))) = R_recording
   \<and> device_log (start None (run_session [Init env_camera] provider_init))
       = [Recorder_start (MediaRecorder 1 (Some ''video/webm''))]
   \<and> rec_status (rstate (start (Some ''NotSupportedError'') (run_session [Init env_camera] provider_init))) = R_error
   \<and> start None provider_init = provider_init"
proof -
  have 1: "recorder (rstate (run_session [Init env_camera] provider_init)) = Some (MediaRecorder 1 (Some ''video/webm''))"
    and 2: "rec_status (rstate (run_session [Init env_camera] provider_init)) = R_ready"
    and 3: "device_log (run_session [Init env_camera] provider_init) = []"
    by (simp_all add: run_session_def provider_init_def initialState_def
          env_camera_def recorder_defs requestUserMedia_def pickSupportedMimeType_def
          mimeCandidates_def Let_def)
  have 4: "recorder (rstate provider_init) = None"
    by (simp add: provider_init_def initialState_def)
  note ready = start_noop_iff_no_recorder_or_recording
      [of None "run_session [Init env_camera] provider_init" "''NotSupportedError''"]
  note fresh = start_noop_iff_no_recorder_or_recording [of None provider_init "''NotSupportedError''"]
  have ne: "start None (run_session [Init env_camera] provider_init) \<noteq> run_session [Init env_camera] provider_init"
    using ready [THEN conjunct1] 1 2 by simp
  have nr: "rec_status (rstate (run_session [Init env_camera] provider_init)) \<noteq> R_recording"
    using 2 by simp
  note both = ready [THEN conjunct2, rule_format, OF conjI [OF 1 nr]]
  note ok = both [THEN conjunct1] and bad = both [THEN conjunct2]
  have idle: "start None provider_init = provider_init"
    using fresh [THEN conjunct1] 4 by simp
  have rec: "rec_status (rstate (start None (run_session [Init env_camera] provider_init))) = R_recording"
    and log: "device_log (start None (run_session [Init env_camera] provider_init))
       = [Recorder_start (MediaRecorder 1 (Some ''video/webm''))]"
    unfolding ok using 3 by simp_all
  have err: "rec_status (rstate (start (Some ''NotSupportedError'') (run_session [Init env_camera] provider_init))) = R_error"
    unfolding bad by simp
  show ?thesis
    using 1 2 ne rec log err idle by simp
qed

section \<open>Properties of the worker\<close>

lemma post_simps [simp]:
  "ffmpeg (post ev w) = ffmpeg w" "busy (post ev w) = busy w" "loading (post ev w) = loading w"
  "posted (post ev w) = posted w @ [ev]"
  by (simp_all add: post_def)

lemma error_text_Error [simp]: "m \<noteq> [] \<Longrightarrow> error_text (Error m) = m"
  by (simp add: error_text_def Error_def)

lemma ensureLoaded_with_engine:
  "ffmpeg w \<noteq> None \<Longrightarrow> ensureLoaded h env sched cu wu w = (Inr (), w, sched)"
  by (auto simp: ensureLoaded_def)

lemma arrivals_without_engine [simp]: "ffmpeg w = None \<Longrightarrow> arrivals h cs w = w"
  by (cases cs) simp_all

lemma busy_command_rejected:
  assumes "busy w" and "ffmpeg w \<noteq> None"
  shows "onmessage_with h env sched (Cmd_preview p) w = post busy_error w"
    and "onmessage_with h env sched (Cmd_snapshot q) w = post busy_error w"
  using assms
  by (simp_all add: onmessage_with_def ensureLoaded_with_engine catch_post_def busy_error_def)


lemma cancelCurrent_tears_down [simp]: "ffmpeg (cancelCurrent w) = None"
  by (simp add: cancelCurrent_def)






lemma held_post [simp]: "held (post ev w) = held w"
  by (simp add: held_def)

lemma absent_post [simp]: "absent n (post ev w) = absent n w"
  by (simp add: absent_def)

lemma held_busy_update [simp]: "held (w\<lparr>busy := True\<rparr>)"
  by (simp add: held_def)

lemma absent_busy_update [simp]: "absent n (w\<lparr>busy := b\<rparr>) = absent n w"
  by (simp add: absent_def)

lemma post_notes_frame [simp]:
  "ffmpeg (post_notes e ns w) = ffmpeg w" "busy (post_notes e ns w) = busy w"
  "loading (post_notes e ns w) = loading w"
proof -
  have "ffmpeg (fold (\<lambda>n. post (forward n)) ns w) = ffmpeg w
      \<and> busy (fold (\<lambda>n. post (forward n)) ns w) = busy w
      \<and> loading (fold (\<lambda>n. post (forward n)) ns w) = loading w"
    by (induction ns arbitrary: w) simp_all
  then show "ffmpeg (post_notes e ns w) = ffmpeg w" "busy (post_notes e ns w) = busy w"
    "loading (post_notes e ns w) = loading w"
    by (simp_all add: post_notes_def)
qed

lemma held_post_notes [simp]: "held (post_notes e ns w) = held w"
  by (simp add: held_def)














lemma arrivals_of_jobs:
  assumes "busy w" and "ffmpeg w \<noteq> None" and "list_all is_job cs"
  shows "arrivals (onmessage_atomic env) cs w = w\<lparr>posted := posted w @ replicate (length cs) busy_error\<rparr>"
  using assms
proof (induction cs arbitrary: w)
  case Nil
  then show ?case by simp
next
  case (Cons c cs)
  have c: "onmessage_atomic env c w = post busy_error w"
    using Cons.prems by (cases c) (simp_all add: onmessage_atomic_def busy_command_rejected)
  have "arrivals (onmessage_atomic env) cs (post busy_error w)
      = (post busy_error w)\<lparr>posted := posted (post busy_error w) @ replicate (length cs) busy_error\<rparr>"
    using Cons.prems by (intro Cons.IH) simp_all
  then show ?case
    using Cons.prems c by (simp add: post_def replicate_app_Cons_same)
qed

lemma same_refl [simp]: "same_but_busy_errors w w"
  by (simp add: same_but_busy_errors_def)

lemma same_post: "same_but_busy_errors w w' \<Longrightarrow> same_but_busy_errors (post ev w) (post ev w')"
  by (simp add: same_but_busy_errors_def)

lemma posted_post_notes:
  "posted (post_notes e ns w) = posted w @ (if listening e then map forward ns else [])"
proof -
  have "posted (fold (\<lambda>n. post (forward n)) ns w) = posted w @ map forward ns"
    by (induction ns arbitrary: w) simp_all
  then show ?thesis by (simp add: post_notes_def)
qed

lemma same_post_notes:
  "same_but_busy_errors w w' \<Longrightarrow> same_but_busy_errors (post_notes e ns w) (post_notes e ns w')"
  by (simp add: same_but_busy_errors_def posted_post_notes)

lemma same_busy_update:
  "same_but_busy_errors w w' \<Longrightarrow> same_but_busy_errors (w\<lparr>busy := b\<rparr>) (w'\<lparr>busy := b\<rparr>)"
  by (simp add: same_but_busy_errors_def)

lemma suspend_of_jobs:
  assumes "busy w" and "ffmpeg w \<noteq> None" and "jobs_only sched"
  shows "same_but_busy_errors (fst (suspend (onmessage_atomic env) sched w)) w"
    and "jobs_only (snd (suspend (onmessage_atomic env) sched w))"
  using assms
  by (cases sched; simp add: suspend_def jobs_only_def arrivals_of_jobs same_but_busy_errors_def)+

lemma suspend_quiet [simp]: "suspend h [] w = (w, [])"
  by (simp add: suspend_def)

text \<open>
  An awaited engine call during which only job commands arrive has the outcome, and
  leaves the engine and the flags, of the same call without arrivals.
\<close>

lemma engine_call_of_jobs:
  assumes "same_but_busy_errors w w'" and "busy w" and "jobs_only sched"
  shows "fst (engine_call (onmessage_atomic env) sched op w) = fst (engine_call (onmessage_atomic env) [] op w')"
    and "same_but_busy_errors (fst (snd (engine_call (onmessage_atomic env) sched op w)))
           (fst (snd (engine_call (onmessage_atomic env) [] op w')))"
    and "busy (fst (snd (engine_call (onmessage_atomic env) sched op w)))"
    and "jobs_only (snd (snd (engine_call (onmessage_atomic env) sched op w)))"
    and "snd (snd (engine_call (onmessage_atomic env) [] op w')) = []"
proof -
  let ?H = "onmessage_atomic env"
  have eq: "ffmpeg w' = ffmpeg w" using assms(1) by (simp add: same_but_busy_errors_def)
  have quiet: "snd (snd (engine_call ?H [] op w')) = []"
    by (simp add: engine_call_def split_beta split: option.splits)
  have main: "fst (engine_call ?H sched op w) = fst (engine_call ?H [] op w')
      \<and> same_but_busy_errors (fst (snd (engine_call ?H sched op w))) (fst (snd (engine_call ?H [] op w')))
      \<and> busy (fst (snd (engine_call ?H sched op w)))
      \<and> jobs_only (snd (snd (engine_call ?H sched op w)))"
  proof (cases "ffmpeg w")
    case None
    then show ?thesis
      using assms eq by (simp add: engine_call_def)
  next
    case (Some e)
    have s1: "same_but_busy_errors (fst (suspend ?H sched w)) w"
      and s2: "jobs_only (snd (suspend ?H sched w))"
      using assms Some by (simp_all add: suspend_of_jobs)
    from s1 have "same_but_busy_errors (fst (suspend ?H sched w)) w'"
      using assms(1) by (simp add: same_but_busy_errors_def)
    then show ?thesis
      using assms Some eq s2
      by (simp add: engine_call_def split_beta same_but_busy_errors_def)
  qed
  show "snd (snd (engine_call ?H [] op w')) = []" by (rule quiet)
  show "fst (engine_call ?H sched op w) = fst (engine_call ?H [] op w')"
    and "same_but_busy_errors (fst (snd (engine_call ?H sched op w))) (fst (snd (engine_call ?H [] op w')))"
    and "busy (fst (snd (engine_call ?H sched op w)))"
    and "jobs_only (snd (snd (engine_call ?H sched op w)))"
    using main by simp_all
qed


lemma exec_call_of_jobs:
  assumes "same_but_busy_errors w w'" and "busy w" and "jobs_only sched"
  shows "fst (exec_call (onmessage_atomic env) env' sched args w)
           = fst (exec_call (onmessage_atomic env) env' [] args w')"
    and "same_but_busy_errors (fst (snd (exec_call (onmessage_atomic env) env' sched args w)))
           (fst (snd (exec_call (onmessage_atomic env) env' [] args w')))"
    and "busy (fst (snd (exec_call (onmessage_atomic env) env' sched args w)))"
    and "jobs_only (snd (snd (exec_call (onmessage_atomic env) env' sched args w)))"
    and "snd (snd (exec_call (onmessage_atomic env) env' [] args w')) = []"
proof -
  let ?H = "onmessage_atomic env"
  have eq: "ffmpeg w' = ffmpeg w" using assms(1) by (simp add: same_but_busy_errors_def)
  have main: "fst (exec_call ?H env' sched args w) = fst (exec_call ?H env' [] args w')
      \<and> same_but_busy_errors (fst (snd (exec_call ?H env' sched args w)))
           (fst (snd (exec_call ?H env' [] args w')))
      \<and> busy (fst (snd (exec_call ?H env' sched args w)))
      \<and> jobs_only (snd (snd (exec_call ?H env' sched args w)))
      \<and> snd (snd (exec_call ?H env' [] args w')) = []"
  proof (cases "ffmpeg w")
    case None
    then show ?thesis using assms eq by (simp add: exec_call_def)
  next
    case (Some e)
    obtain ns r e' where ex: "exec env' args e = (ns, r, e')"
      by (cases "exec env' args e") auto
    have a: "same_but_busy_errors (post_notes e ns w) (post_notes e ns w')"
      using assms(1) by (rule same_post_notes)
    have b: "busy (post_notes e ns w)" using assms(2) by simp
    show ?thesis
      using Some eq ex engine_call_of_jobs [OF a b assms(3), of env "\<lambda>_. (r, e')"]
      by (simp add: exec_call_def)
  qed
  then show "fst (exec_call ?H env' sched args w) = fst (exec_call ?H env' [] args w')"
    and "same_but_busy_errors (fst (snd (exec_call ?H env' sched args w)))
           (fst (snd (exec_call ?H env' [] args w')))"
    and "busy (fst (snd (exec_call ?H env' sched args w)))"
    and "jobs_only (snd (snd (exec_call ?H env' sched args w)))"
    and "snd (snd (exec_call ?H env' [] args w')) = []"
    by simp_all
qed

lemma try_delete_of_jobs:
  assumes "same_but_busy_errors w w'" and "busy w" and "jobs_only sched"
  shows "same_but_busy_errors (fst (try_delete (onmessage_atomic env) sched name w))
           (fst (try_delete (onmessage_atomic env) [] name w'))"
    and "busy (fst (try_delete (onmessage_atomic env) sched name w))"
    and "jobs_only (snd (try_delete (onmessage_atomic env) sched name w))"
    and "snd (try_delete (onmessage_atomic env) [] name w') = []"
  using engine_call_of_jobs [OF assms, of env "deleteFile name"]
  by (simp_all add: try_delete_def split_beta)

text \<open>The same for the \<^verbatim>\<open>try\<close> blocks and for the whole jobs.\<close>

lemma doPreview_try_of_jobs:
  assumes "same_but_busy_errors w w'" and "busy w" and "jobs_only sched"
  shows "fst (doPreview_try (onmessage_atomic env) env' sched p w)
           = fst (doPreview_try (onmessage_atomic env) env' [] p w')
      \<and> same_but_busy_errors (fst (snd (doPreview_try (onmessage_atomic env) env' sched p w)))
           (fst (snd (doPreview_try (onmessage_atomic env) env' [] p w')))
      \<and> busy (fst (snd (doPreview_try (onmessage_atomic env) env' sched p w)))
      \<and> jobs_only (snd (snd (doPreview_try (onmessage_atomic env) env' sched p w)))
      \<and> snd (snd (doPreview_try (onmessage_atomic env) env' [] p w')) = []"
proof -
  let ?H = "onmessage_atomic env"
  let ?wfile = "writeFile (or_else (inputName p) ''input.webm'') (data p)"
  obtain r1 w1 s1 where c1: "engine_call ?H sched ?wfile w = (r1, w1, s1)" by (metis prod_cases3)
  obtain r1' w1' s1' where c1': "engine_call ?H [] ?wfile w' = (r1', w1', s1')" by (metis prod_cases3)
  from engine_call_of_jobs [OF assms, of env ?wfile] c1 c1'
  have k1: "r1 = r1'" "same_but_busy_errors w1 w1'" "busy w1" "jobs_only s1" "s1' = []" by simp_all
  obtain outName args where rc: "preview_recipe p = (outName, args)" by (metis prod.exhaust)
  obtain r2 w2 s2 where c2: "exec_call ?H env' s1 args w1 = (r2, w2, s2)" by (metis prod_cases3)
  obtain r2' w2' s2' where c2': "exec_call ?H env' [] args w1' = (r2', w2', s2')" by (metis prod_cases3)
  from exec_call_of_jobs [OF k1(2,3,4), of env env' args] c2 c2'
  have k2: "r2 = r2'" "same_but_busy_errors w2 w2'" "busy w2" "jobs_only s2" "s2' = []" by simp_all
  obtain r3 w3 s3 where c3: "engine_call ?H s2 (readFile outName) w2 = (r3, w3, s3)" by (metis prod_cases3)
  obtain r3' w3' s3' where c3': "engine_call ?H [] (readFile outName) w2' = (r3', w3', s3')" by (metis prod_cases3)
  from engine_call_of_jobs [OF k2(2,3,4), of env "readFile outName"] c3 c3'
  have k3: "r3 = r3'" "same_but_busy_errors w3 w3'" "busy w3" "jobs_only s3" "s3' = []" by simp_all
  show ?thesis
    using c1 c1' k1 rc c2 c2' k2 c3 c3' k3
    by (auto simp: doPreview_try_def Let_def same_post split: sum.splits)
qed

lemma doSnapshot_try_of_jobs:
  assumes "same_but_busy_errors w w'" and "busy w" and "jobs_only sched"
  shows "fst (doSnapshot_try (onmessage_atomic env) env' sched p w)
           = fst (doSnapshot_try (onmessage_atomic env) env' [] p w')
      \<and> same_but_busy_errors (fst (snd (doSnapshot_try (onmessage_atomic env) env' sched p w)))
           (fst (snd (doSnapshot_try (onmessage_atomic env) env' [] p w')))
      \<and> busy (fst (snd (doSnapshot_try (onmessage_atomic env) env' sched p w)))
      \<and> jobs_only (snd (snd (doSnapshot_try (onmessage_atomic env) env' sched p w)))
      \<and> snd (snd (doSnapshot_try (onmessage_atomic env) env' [] p w')) = []"
proof -
  let ?H = "onmessage_atomic env"
  let ?wfile = "writeFile (or_else (inputName p) ''input.webm'') (data p)"
  obtain r1 w1 s1 where c1: "engine_call ?H sched ?wfile w = (r1, w1, s1)" by (metis prod_cases3)
  obtain r1' w1' s1' where c1': "engine_call ?H [] ?wfile w' = (r1', w1', s1')" by (metis prod_cases3)
  from engine_call_of_jobs [OF assms, of env ?wfile] c1 c1'
  have k1: "r1 = r1'" "same_but_busy_errors w1 w1'" "busy w1" "jobs_only s1" "s1' = []" by simp_all
  obtain outName args where rc: "snapshot_recipe p = (outName, args)" by (metis prod.exhaust)
  obtain r2 w2 s2 where c2: "exec_call ?H env' s1 args w1 = (r2, w2, s2)" by (metis prod_cases3)
  obtain r2' w2' s2' where c2': "exec_call ?H env' [] args w1' = (r2', w2', s2')" by (metis prod_cases3)
  from exec_call_of_jobs [OF k1(2,3,4), of env env' args] c2 c2'
  have k2: "r2 = r2'" "same_but_busy_errors w2 w2'" "busy w2" "jobs_only s2" "s2' = []" by simp_all
  obtain r3 w3 s3 where c3: "engine_call ?H s2 (readFile outName) w2 = (r3, w3, s3)" by (metis prod_cases3)
  obtain r3' w3' s3' where c3': "engine_call ?H [] (readFile outName) w2' = (r3', w3', s3')" by (metis prod_cases3)
  from engine_call_of_jobs [OF k2(2,3,4), of env "readFile outName"] c3 c3'
  have k3: "r3 = r3'" "same_but_busy_errors w3 w3'" "busy w3" "jobs_only s3" "s3' = []" by simp_all
  show ?thesis
    using c1 c1' k1 rc c2 c2' k2 c3 c3' k3
    by (auto simp: doSnapshot_try_def Let_def same_post split: sum.splits)
qed

lemma doPreview_of_jobs:
  assumes "jobs_only sched"
  shows "fst (doPreview (onmessage_atomic env) env' sched p w)
           = fst (doPreview (onmessage_atomic env) env' [] p w)
      \<and> same_but_busy_errors (fst (snd (doPreview (onmessage_atomic env) env' sched p w)))
           (fst (snd (doPreview (onmessage_atomic env) env' [] p w)))"
proof (cases "ffmpeg w")
  case None
  then show ?thesis by (simp add: doPreview_def)
next
  case (Some e)
  let ?H = "onmessage_atomic env"
  let ?w = "w\<lparr>busy := True\<rparr>"
  obtain r w1 s1 where t: "doPreview_try ?H env' sched p ?w = (r, w1, s1)" by (metis prod_cases3)
  obtain r' w1' s1' where t': "doPreview_try ?H env' [] p ?w = (r', w1', s1')" by (metis prod_cases3)
  from doPreview_try_of_jobs [of ?w ?w sched env env' p] assms t t'
  have k1: "r = r'" "same_but_busy_errors w1 w1'" "busy w1" "jobs_only s1" "s1' = []" by simp_all
  obtain w2 s2 where d1: "try_delete ?H s1 ''preview.mp4'' w1 = (w2, s2)" by (metis prod.exhaust)
  obtain w2' s2' where d1': "try_delete ?H [] ''preview.mp4'' w1' = (w2', s2')" by (metis prod.exhaust)
  from try_delete_of_jobs [OF k1(2,3,4), of env "''preview.mp4''"] d1 d1'
  have k2: "same_but_busy_errors w2 w2'" "busy w2" "jobs_only s2" "s2' = []" by simp_all
  obtain w3 s3 where d2: "try_delete ?H s2 ''preview.webm'' w2 = (w3, s3)" by (metis prod.exhaust)
  obtain w3' s3' where d2': "try_delete ?H [] ''preview.webm'' w2' = (w3', s3')" by (metis prod.exhaust)
  from try_delete_of_jobs [OF k2(1,2,3), of env "''preview.webm''"] d2 d2'
  have k3: "same_but_busy_errors w3 w3'" "busy w3" "jobs_only s3" "s3' = []" by simp_all
  let ?input = "or_else (inputName p) ''input.webm''"
  obtain w4 s4 where d3: "try_delete ?H s3 ?input w3 = (w4, s4)" by (metis prod.exhaust)
  obtain w4' s4' where d3': "try_delete ?H [] ?input w3' = (w4', s4')" by (metis prod.exhaust)
  from try_delete_of_jobs [OF k3(1,2,3), of env ?input] d3 d3'
  have k4: "same_but_busy_errors w4 w4'" by simp
  have "doPreview ?H env' sched p w = (r, w4\<lparr>busy := False\<rparr>, s4)"
    using Some t d1 d2 d3 by (simp add: doPreview_def)
  moreover have "doPreview ?H env' [] p w = (r', w4'\<lparr>busy := False\<rparr>, s4')"
    using Some t' d1' d2' d3' k1(5) k2(4) k3(4) by (simp add: doPreview_def)
  ultimately show ?thesis
    using k1(1) k4 by (simp add: same_busy_update)
qed

lemma doSnapshot_of_jobs:
  assumes "jobs_only sched"
  shows "fst (doSnapshot (onmessage_atomic env) env' sched p w)
           = fst (doSnapshot (onmessage_atomic env) env' [] p w)
      \<and> same_but_busy_errors (fst (snd (doSnapshot (onmessage_atomic env) env' sched p w)))
           (fst (snd (doSnapshot (onmessage_atomic env) env' [] p w)))"
proof (cases "ffmpeg w")
  case None
  then show ?thesis by (simp add: doSnapshot_def)
next
  case (Some e)
  let ?H = "onmessage_atomic env"
  let ?w = "w\<lparr>busy := True\<rparr>"
  obtain r w1 s1 where t: "doSnapshot_try ?H env' sched p ?w = (r, w1, s1)" by (metis prod_cases3)
  obtain r' w1' s1' where t': "doSnapshot_try ?H env' [] p ?w = (r', w1', s1')" by (metis prod_cases3)
  from doSnapshot_try_of_jobs [of ?w ?w sched env env' p] assms t t'
  have k1: "r = r'" "same_but_busy_errors w1 w1'" "busy w1" "jobs_only s1" "s1' = []" by simp_all
  obtain w2 s2 where d1: "try_delete ?H s1 ''thumb.jpg'' w1 = (w2, s2)" by (metis prod.exhaust)
  obtain w2' s2' where d1': "try_delete ?H [] ''thumb.jpg'' w1' = (w2', s2')" by (metis prod.exhaust)
  from try_delete_of_jobs [OF k1(2,3,4), of env "''thumb.jpg''"] d1 d1'
  have k2: "same_but_busy_errors w2 w2'" "busy w2" "jobs_only s2" "s2' = []" by simp_all
  let ?input = "or_else (inputName p) ''input.webm''"
  obtain w3 s3 where d2: "try_delete ?H s2 ?input w2 = (w3, s3)" by (metis prod.exhaust)
  obtain w3' s3' where d2': "try_delete ?H [] ?input w2' = (w3', s3')" by (metis prod.exhaust)
  from try_delete_of_jobs [OF k2(1,2,3), of env ?input] d2 d2'
  have k3: "same_but_busy_errors w3 w3'" by simp
  have "doSnapshot ?H env' sched p w = (r, w3\<lparr>busy := False\<rparr>, s3)"
    using Some t d1 d2 by (simp add: doSnapshot_def)
  moreover have "doSnapshot ?H env' [] p w = (r', w3'\<lparr>busy := False\<rparr>, s3')"
    using Some t' d1' d2' k1(5) k2(4) by (simp add: doSnapshot_def)
  ultimately show ?thesis
    using k1(1) k3 by (simp add: same_busy_update)
qed











lemma catch_post_busy [simp]: "busy (catch_post x) = busy (fst (snd x))"
  by (cases x) (auto simp: catch_post_def split: sum.splits)







lemma tracks_post [simp]: "tracks quiet e (post ev w) = tracks quiet e w"
  by (simp add: tracks_def)

lemma tracks_post_notes [simp]: "tracks quiet e (post_notes e0 ns w) = tracks quiet e w"
  by (simp add: tracks_def)






lemma readFile_engine [simp]: "snd (readFile name e) = e"
  by (simp add: readFile_def split: option.splits)








lemmas worker_eval =
  doPreview_def doPreview_try_def doSnapshot_def doSnapshot_try_def try_delete_def engine_call_def
  exec_call_def exec_def writeFile_def readFile_def deleteFile_def suspend_def post_notes_def post_def
  preview_recipe_def snapshot_recipe_def or_else_def nullish_def
  onmessage_atomic_def onmessage_with_def cancelCurrent_def catch_post_def ensureLoaded_def
  worker_ready_def worker_busy_def worker_init_def engine_ready_def env_ok_def env_exec_fails_def
  params0_def snap0_def error_text_def Error_def ERROR_TERMINATED_def FS_ERROR_def TypeError_null_def

lemma run_ok:
  "doPreview (onmessage_atomic env_ok) env_ok [] params0 worker_ready
     = (Inr (), worker_ready\<lparr>posted := [Ev_log ''frame=1'', Ev_result Preview ''preview.mp4'' ''video/mp4'' [7, 7, 7]]\<rparr>, [])"
  by (simp add: worker_eval Let_def)



lemma run_snap_rejected:
  "doPreview (onmessage_atomic env_ok) env_ok [[Cmd_snapshot snap0], [], [Cmd_preview params0]] params0 worker_ready
     = (Inr (), worker_ready\<lparr>posted := [Ev_error ''FFmpeg worker is busy'', Ev_log ''frame=1'',
          Ev_error ''FFmpeg worker is busy'',
          Ev_result Preview ''preview.mp4'' ''video/mp4'' [7, 7, 7]]\<rparr>, [])"
  by (simp add: worker_eval Let_def)



text \<open>
  C1. A preview or snapshot command that reaches the worker while a job holds the busy
  flag (and hence an engine exists: only a job that found one sets the flag, and a
  teardown clears it) is rejected, whether it is handled on its own or during a
  suspension of the job: the handler posts the error event ``FFmpeg worker is busy'' and
  changes nothing else, so the engine, its files and both flags are as before and no
  result event is posted. On the page, the error event leaves the preview and snapshot
  references untouched, and a call of \<open>makePreview\<close> or \<open>makeSnapshot\<close> while the status is
  \<open>working\<close> sends nothing. The job in flight is not disturbed: when only preview and
  snapshot commands arrive during its suspensions, it has the outcome, the engine, the
  flags and, apart from the busy errors, the posted events of the run without arrivals.
\<close>

theorem busy_worker_rejects_job_commands:
  "(busy w \<and> ffmpeg w \<noteq> None \<longrightarrow>
      self_onmessage env sched (Cmd_preview p) w = w\<lparr>posted := posted w @ [Ev_error ''FFmpeg worker is busy'']\<rparr>
      \<and> self_onmessage env sched (Cmd_snapshot q) w = w\<lparr>posted := posted w @ [Ev_error ''FFmpeg worker is busy'']\<rparr>
      \<and> onmessage_atomic env (Cmd_preview p) w = w\<lparr>posted := posted w @ [Ev_error ''FFmpeg worker is busy'']\<rparr>
      \<and> onmessage_atomic env (Cmd_snapshot q) w = w\<lparr>posted := posted w @ [Ev_error ''FFmpeg worker is busy'']\<rparr>)
   \<and> w_onmessage (Ev_error m) h = h\<lparr>state := (state h)\<lparr>status := W_error, error := Some m\<rparr>\<rparr>
   \<and> (status (state h) = W_working \<longrightarrow>
        sent (makePreview f opts h) = sent h \<and> state (makePreview f opts h) = state h
        \<and> urls (makePreview f opts h) = urls h
        \<and> sent (makeSnapshot f sopts h) = sent h \<and> state (makeSnapshot f sopts h) = state h
        \<and> urls (makeSnapshot f sopts h) = urls h)
   \<and> (jobs_only sched \<longrightarrow>
        fst (doPreview (onmessage_atomic env) env sched p w) = fst (doPreview (onmessage_atomic env) env [] p w)
        \<and> same_but_busy_errors (fst (snd (doPreview (onmessage_atomic env) env sched p w)))
             (fst (snd (doPreview (onmessage_atomic env) env [] p w)))
        \<and> fst (doSnapshot (onmessage_atomic env) env sched q w) = fst (doSnapshot (onmessage_atomic env) env [] q w)
        \<and> same_but_busy_errors (fst (snd (doSnapshot (onmessage_atomic env) env sched q w)))
             (fst (snd (doSnapshot (onmessage_atomic env) env [] q w))))"
proof -
  have rejected: "self_onmessage env sched (Cmd_preview p) w = w\<lparr>posted := posted w @ [Ev_error ''FFmpeg worker is busy'']\<rparr>
      \<and> self_onmessage env sched (Cmd_snapshot q) w = w\<lparr>posted := posted w @ [Ev_error ''FFmpeg worker is busy'']\<rparr>
      \<and> onmessage_atomic env (Cmd_preview p) w = w\<lparr>posted := posted w @ [Ev_error ''FFmpeg worker is busy'']\<rparr>
      \<and> onmessage_atomic env (Cmd_snapshot q) w = w\<lparr>posted := posted w @ [Ev_error ''FFmpeg worker is busy'']\<rparr>"
    if "busy w \<and> ffmpeg w \<noteq> None"
    using that
      busy_command_rejected [where w = w and h = "onmessage_atomic env" and env = env and sched = sched]
      busy_command_rejected [where w = w and h = "\<lambda>c w. w" and env = env and sched = "[]"]
    by (simp add: self_onmessage_def onmessage_atomic_def busy_error_def post_def)
  have page: "w_onmessage (Ev_error m) h = h\<lparr>state := (state h)\<lparr>status := W_error, error := Some m\<rparr>\<rparr>"
    by (simp add: setState_def)
  have guard: "sent (makePreview f opts h) = sent h \<and> state (makePreview f opts h) = state h
        \<and> urls (makePreview f opts h) = urls h
        \<and> sent (makeSnapshot f sopts h) = sent h \<and> state (makeSnapshot f sopts h) = state h
        \<and> urls (makeSnapshot f sopts h) = urls h"
    if "status (state h) = W_working"
    using that by (simp add: makePreview_def makeSnapshot_def ensureWorker_def)
  show ?thesis
    using rejected page guard
      doPreview_of_jobs [where sched = sched and env = env and env' = env and p = p and w = w]
      doSnapshot_of_jobs [where sched = sched and env = env and env' = env and p = q and w = w]
    by blast
qed

theorem busy_worker_rejects_job_commands_witness:
  "busy worker_busy \<and> ffmpeg worker_busy \<noteq> None
   \<and> self_onmessage env_ok [] (Cmd_preview params0) worker_busy
       = worker_busy\<lparr>posted := [Ev_error ''FFmpeg worker is busy'']\<rparr>
   \<and> self_onmessage env_ok [] (Cmd_snapshot snap0) worker_busy
       = worker_busy\<lparr>posted := [Ev_error ''FFmpeg worker is busy'']\<rparr>
   \<and> status (state (hook_init\<lparr>state := state_init\<lparr>status := W_working\<rparr>\<rparr>)) = W_working
   \<and> sent (makePreview (Blob [1] ''video/webm'') None (hook_init\<lparr>state := state_init\<lparr>status := W_working\<rparr>\<rparr>)) = []
   \<and> jobs_only [[Cmd_snapshot snap0], [], [Cmd_preview params0]]
   \<and> fst (doPreview (onmessage_atomic env_ok) env_ok [[Cmd_snapshot snap0], [], [Cmd_preview params0]]
            params0 worker_ready) = Inr ()
   \<and> posted (fst (snd (doPreview (onmessage_atomic env_ok) env_ok
            [[Cmd_snapshot snap0], [], [Cmd_preview params0]] params0 worker_ready)))
       = [Ev_error ''FFmpeg worker is busy'', Ev_log ''frame=1'', Ev_error ''FFmpeg worker is busy'',
          Ev_result Preview ''preview.mp4'' ''video/mp4'' [7, 7, 7]]
   \<and> same_but_busy_errors
        (fst (snd (doPreview (onmessage_atomic env_ok) env_ok
            [[Cmd_snapshot snap0], [], [Cmd_preview params0]] params0 worker_ready)))
        (worker_ready\<lparr>posted := [Ev_log ''frame=1'', Ev_result Preview ''preview.mp4'' ''video/mp4'' [7, 7, 7]]\<rparr>)"
proof -
  have b: "busy worker_busy \<and> ffmpeg worker_busy \<noteq> None" and e: "posted worker_busy = []"
    by (simp_all add: worker_busy_def)
  have j: "jobs_only [[Cmd_snapshot snap0], [], [Cmd_preview params0]]"
    by (simp add: jobs_only_def)
  have g: "status (state (hook_init\<lparr>state := state_init\<lparr>status := W_working\<rparr>\<rparr>)) = W_working"
    and s: "sent (hook_init\<lparr>state := state_init\<lparr>status := W_working\<rparr>\<rparr>) = []"
    by (simp_all add: hook_init_def)
  note rej = busy_worker_rejects_job_commands
      [where w = worker_busy and env = env_ok and sched = "[]" and p = params0 and q = snap0
         and h = "hook_init\<lparr>state := state_init\<lparr>status := W_working\<rparr>\<rparr>"
         and f = "Blob [1] ''video/webm''" and opts = None]
  note inflight = busy_worker_rejects_job_commands
      [where w = worker_ready and env = env_ok and sched = "[[Cmd_snapshot snap0], [], [Cmd_preview params0]]"
         and p = params0 and q = snap0]
  show ?thesis
    using b e j g s rej inflight
    by (simp add: run_ok run_snap_rejected)
qed


end
